theory Spec2Isabelle
  imports
    Main
    "HOL-Library.Char_ord"
    "HOL-Library.List_Lexorder"
    "HOL-Library.Sublist"
begin

section \<open>Data model\<close>

text \<open>
  \<^verbatim>\<open>zenml/config/docker_configuration.py\<close>.  Python strings are \<^typ>\<open>string\<close>; with
  \<^verbatim>\<open>Char_ord\<close> and \<^verbatim>\<open>List_Lexorder\<close> the order on \<^typ>\<open>string\<close> is the
  lexicographic order that \<^verbatim>\<open>sorted\<close> uses on \<^verbatim>\<open>str\<close>.
\<close>

datatype PythonEnvironmentExportMethod = PIP_FREEZE | POETRY_EXPORT

fun command :: "PythonEnvironmentExportMethod \<Rightarrow> string" where
  "command PIP_FREEZE = ''pip freeze''"
| "command POETRY_EXPORT = ''poetry export --format=requirements.txt''"

text \<open>The field \<^verbatim>\<open>requirements: Union[None, str, List[str]]\<close>: \<open>None\<close> is the absent
  option, a \<^verbatim>\<open>str\<close> is a path, a list holds package specifiers.\<close>

datatype requirements_value = ReqPath string | ReqList "string list"

text \<open>
  The values of the two \<^verbatim>\<open>Dict[str, Any]\<close> fields are opaque to the builder; a value
  is kept as the text that \<^verbatim>\<open>f"{value}"\<close> renders.  A dict keeps insertion order, so
  both are association lists.
\<close>

record DockerConfiguration =
  parent_image :: "string option"
  dockerfile :: "string option"
  build_context_root :: "string option"
  build_options :: "(string \<times> string) list"
  target_repository :: string
  replicate_local_python_environment :: "PythonEnvironmentExportMethod option"
  requirements :: "requirements_value option"
  required_integrations :: "string list"
  install_stack_requirements :: bool
  environment :: "(string \<times> string) list"
  dockerignore :: "string option"
  copy_files :: bool
  copy_profile :: bool

text \<open>The field defaults of the class: what \<^verbatim>\<open>DockerConfiguration()\<close> constructs.\<close>

definition DockerConfiguration_default :: DockerConfiguration where
  "DockerConfiguration_default =
     \<lparr> parent_image = None,
       dockerfile = None,
       build_context_root = None,
       build_options = [],
       target_repository = ''zenml'',
       replicate_local_python_environment = None,
       requirements = None,
       required_integrations = [],
       install_stack_requirements = True,
       environment = [],
       dockerignore = None,
       copy_files = True,
       copy_profile = True \<rparr>"

subsection \<open>Errors and collaborators\<close>

text \<open>
  An exception raised by a collaborator (image builder, registry, file system, integration
  registry) is opaque: \<open>exc\<close> names it.  The builder's own raises are \<open>ValueError\<close> and
  \<open>RuntimeError\<close> with their messages.  \<open>TypeError\<close> is raised by the Python runtime
  inside the builder: for a keyword argument given twice in a call, and for
  \<^verbatim>\<open>os.path.join(None, ...)\<close>.
\<close>

type_synonym exc = string

datatype error =
    ValueError string
  | RuntimeError string
  | TypeError
  | Propagated exc

text \<open>\<^verbatim>\<open>subprocess.check_output(cmd, shell=True).decode()\<close>: the decoded standard
  output, \<^verbatim>\<open>CalledProcessError\<close> on a non-zero exit, or any other exception.\<close>

datatype process_result = Stdout string | CalledProcessError | ProcessRaises exc

text \<open>
  The calls with an effect on the outside world, as the builder issues them.  The two
  call shapes of \<^verbatim>\<open>docker_utils.build_image\<close> differ in their keyword arguments: the
  custom-Dockerfile call passes \<^verbatim>\<open>**build_options\<close>, the synthesis call passes
  \<^verbatim>\<open>dockerignore\<close>, \<^verbatim>\<open>extra_files\<close> and \<^verbatim>\<open>pull\<close>.
\<close>

datatype dockerfile_arg = DockerfilePath string | DockerfileLines "string list"

datatype build_kwargs =
    BuildOptions "(string \<times> string) list"
  | SynthArgs "string option" "(string \<times> string) list" bool

datatype event =
    BuildImage string dockerfile_arg "string option" build_kwargs
  | TagImage string string
  | CopyActiveConfiguration string string
  | Rmtree string
  | PushImage string

text \<open>
  Everything the module reads from outside itself: the constants it imports
  (\<^verbatim>\<open>zenml.__version__\<close>, \<^verbatim>\<open>sys.version_info\<close> as the f-string renders it,
  \<^verbatim>\<open>ENV_ZENML_CONFIG_PATH\<close>), the built-in \<^verbatim>\<open>str.upper\<close> of the Python runtime
  (\<open>str_upper\<close>: its case mapping covers all of Unicode and is a table of the runtime,
  so it is taken as it is), the answers of the read-only collaborators, and for every
  effectful call whether it raises (\<open>raises\<close>).  A call is recorded when it is issued,
  whether or not it then raises.  No run issues the same call twice, so an outcome that
  depends on the call alone loses no generality.
\<close>

record External =
  zenml_version :: string
  python_major :: string
  python_minor :: string
  ENV_ZENML_CONFIG_PATH :: string
  str_upper :: "string \<Rightarrow> string"
  check_output :: "string \<Rightarrow> process_result"
  read_file_contents_as_string :: "string \<Rightarrow> exc + string"
  select_integration_requirements :: "string \<Rightarrow> exc + string list"
  is_local_image :: "string \<Rightarrow> bool"
  get_source_root_path :: string
  raises :: "event \<Rightarrow> exc option"

text \<open>The stack: \<^verbatim>\<open>stack.name\<close>, \<^verbatim>\<open>stack.container_registry\<close> and the elements of the
  set \<^verbatim>\<open>stack.requirements()\<close> (in any order; only their set is read).\<close>

record ContainerRegistry =
  uri :: string
  push_image :: "string \<Rightarrow> exc + string"

record Stack =
  name :: string
  container_registry :: "ContainerRegistry option"
  stack_requirements :: "string list"

record PipelineDockerImageBuilder =
  docker_parent_image :: "string option"

section \<open>Constants and helpers\<close>

definition DOCKER_IMAGE_WORKDIR :: string where
  "DOCKER_IMAGE_WORKDIR = ''/app''"

definition DOCKER_IMAGE_ZENML_CONFIG_DIR :: string where
  "DOCKER_IMAGE_ZENML_CONFIG_DIR = ''.zenconfig''"

definition DOCKER_IMAGE_ZENML_CONFIG_PATH :: string where
  "DOCKER_IMAGE_ZENML_CONFIG_PATH = DOCKER_IMAGE_WORKDIR @ ''/'' @ DOCKER_IMAGE_ZENML_CONFIG_DIR"

definition DEFAULT_DOCKER_PARENT_IMAGE :: "External \<Rightarrow> string" where
  "DEFAULT_DOCKER_PARENT_IMAGE ext =
     ''zenmldocker/zenml:'' @ zenml_version ext @ ''-py'' @ python_major ext @ ''.'' @ python_minor ext"

text \<open>Python truthiness of an \<^verbatim>\<open>Optional[str]\<close>: \<open>None\<close> and the empty string are false.\<close>

fun truthy_str :: "string option \<Rightarrow> bool" where
  "truthy_str None = False"
| "truthy_str (Some s) = (s \<noteq> [])"

fun truthy_requirements :: "requirements_value option \<Rightarrow> bool" where
  "truthy_requirements None = False"
| "truthy_requirements (Some (ReqPath p)) = (p \<noteq> [])"
| "truthy_requirements (Some (ReqList l)) = (l \<noteq> [])"

text \<open>\<^verbatim>\<open>a or b\<close> on optional strings.\<close>

definition or_str :: "string option \<Rightarrow> string option \<Rightarrow> string option" where
  "or_str a b = (if truthy_str a then a else b)"

text \<open>\<^verbatim>\<open>sep.join(xs)\<close>.\<close>

fun join :: "string \<Rightarrow> string list \<Rightarrow> string" where
  "join sep [] = []"
| "join sep [x] = x"
| "join sep (x # y # ys) = x @ sep @ join sep (y # ys)"

definition newline :: string where
  "newline = [CHR 0x0A]"

text \<open>\<^verbatim>\<open>os.path.join(a, b)\<close> (POSIX) for a relative second component.\<close>

definition os_path_join :: "string \<Rightarrow> string \<Rightarrow> string" where
  "os_path_join a b = (if a = [] \<or> last a = CHR ''/'' then a @ b else a @ ''/'' @ b)"

text \<open>Sequencing of fallible steps: the first error ends the computation.\<close>

fun bind_err :: "error + 'a \<Rightarrow> ('a \<Rightarrow> error + 'b) \<Rightarrow> error + 'b" where
  "bind_err (Inl e) f = Inl e"
| "bind_err (Inr x) f = f x"

fun propagate :: "exc + 'a \<Rightarrow> error + 'a" where
  "propagate (Inl x) = Inl (Propagated x)"
| "propagate (Inr v) = Inr v"

text \<open>Issuing an effectful call: its outcome and the one event it leaves.\<close>

definition call :: "External \<Rightarrow> event \<Rightarrow> (error + unit) \<times> event list" where
  "call ext ev = (case raises ext ev of None \<Rightarrow> (Inr (), [ev]) | Some x \<Rightarrow> (Inl (Propagated x), [ev]))"

section \<open>The requirements collator\<close>

text \<open>
  \<^verbatim>\<open>PipelineDockerImageBuilder._gather_requirements_files\<close> (an Isabelle name cannot
  start with an underscore).  The three stages run in the source's order and each appends
  to \<open>requirements_files\<close>.
\<close>

text \<open>The generator \<^verbatim>\<open>chain.from_iterable(select_integration_requirements(i) for i in ...)\<close>:
  the lookups happen in list order and the first one that raises ends the iteration.\<close>

fun chain_integration_requirements :: "External \<Rightarrow> string list \<Rightarrow> error + string list" where
  "chain_integration_requirements ext [] = Inr []"
| "chain_integration_requirements ext (integration # rest) =
     bind_err (propagate (select_integration_requirements ext integration)) (\<lambda>reqs.
     bind_err (chain_integration_requirements ext rest) (\<lambda>more.
     Inr (reqs @ more)))"

definition local_requirements_stage ::
  "External \<Rightarrow> DockerConfiguration \<Rightarrow> error + (string \<times> string) list" where
  "local_requirements_stage ext docker_configuration =
     (case replicate_local_python_environment docker_configuration of
        None \<Rightarrow> Inr []
      | Some method \<Rightarrow>
          (case check_output ext (command method) of
             CalledProcessError \<Rightarrow> Inl (RuntimeError ''Unable to export local python packages.'')
           | ProcessRaises x \<Rightarrow> Inl (Propagated x)
           | Stdout local_requirements \<Rightarrow>
               Inr [(''.zenml_local_requirements'', local_requirements)]))"

text \<open>The value of the local \<open>user_requirements\<close>: \<open>None\<close> when the field is unset.\<close>

definition user_requirements_text ::
  "External \<Rightarrow> DockerConfiguration \<Rightarrow> error + string option" where
  "user_requirements_text ext docker_configuration =
     (case requirements docker_configuration of
        Some (ReqPath path) \<Rightarrow>
          bind_err (propagate (read_file_contents_as_string ext path)) (\<lambda>text. Inr (Some text))
      | Some (ReqList packages) \<Rightarrow> Inr (Some (join newline packages))
      | None \<Rightarrow> Inr None)"

text \<open>The set \<open>integration_requirements\<close> after the optional \<^verbatim>\<open>update\<close>.\<close>

definition integration_requirements_set ::
  "DockerConfiguration \<Rightarrow> Stack \<Rightarrow> string list \<Rightarrow> string set" where
  "integration_requirements_set docker_configuration stack chained =
     (if install_stack_requirements docker_configuration
      then set chained \<union> set (stack_requirements stack)
      else set chained)"

definition gather_requirements_files ::
  "External \<Rightarrow> DockerConfiguration \<Rightarrow> Stack \<Rightarrow> error + (string \<times> string) list" where
  "gather_requirements_files ext docker_configuration stack =
     bind_err (local_requirements_stage ext docker_configuration) (\<lambda>requirements_files.
     bind_err (user_requirements_text ext docker_configuration) (\<lambda>user_requirements.
     let requirements_files =
           (case user_requirements of
              Some text \<Rightarrow>
                if text \<noteq> []
                then requirements_files @ [(''.zenml_user_requirements'', text)]
                else requirements_files
            | None \<Rightarrow> requirements_files)
     in
     bind_err (chain_integration_requirements ext (required_integrations docker_configuration))
       (\<lambda>chained.
     let integration_requirements =
           integration_requirements_set docker_configuration stack chained
     in
     if integration_requirements \<noteq> {}
     then Inr (requirements_files @
            [(''.zenml_integration_requirements'',
              join newline (sorted_list_of_set integration_requirements))])
     else Inr requirements_files)))"

section \<open>The Dockerfile synthesizer\<close>

text \<open>
  \<^verbatim>\<open>PipelineDockerImageBuilder._generate_zenml_pipeline_dockerfile\<close>.  The imported
  constant \<^verbatim>\<open>ENV_ZENML_CONFIG_PATH\<close> is its first argument and the built-in
  \<^verbatim>\<open>str.upper\<close>, which it applies to every environment key, its second; the two
  \<^verbatim>\<open>for\<close> loops are folds that append to \<open>lines\<close>.
\<close>

definition generate_zenml_pipeline_dockerfile ::
  "string \<Rightarrow> (string \<Rightarrow> string) \<Rightarrow> string \<Rightarrow> DockerConfiguration \<Rightarrow> string list
     \<Rightarrow> string option \<Rightarrow> string list" where
  "generate_zenml_pipeline_dockerfile env_zenml_config_path upper parent docker_configuration
       requirements_files entrypoint =
     (let lines = [''FROM '' @ parent, ''WORKDIR '' @ DOCKER_IMAGE_WORKDIR];
          lines =
            (if copy_profile docker_configuration
             then lines @ [''ENV '' @ env_zenml_config_path @ ''='' @ DOCKER_IMAGE_ZENML_CONFIG_PATH]
             else lines);
          lines =
            foldl (\<lambda>lines (key, val). lines @ [''ENV '' @ upper key @ ''='' @ val])
              lines (environment docker_configuration);
          lines =
            foldl (\<lambda>lines file.
                     lines @ [''COPY '' @ file @ '' .'',
                              ''RUN pip install --no-cache-dir -r '' @ file])
              lines requirements_files;
          lines =
            (if copy_files docker_configuration then lines @ [''COPY . .'']
             else if copy_profile docker_configuration
             then lines @ [''COPY '' @ DOCKER_IMAGE_ZENML_CONFIG_DIR @ '' .'']
             else lines);
          lines = lines @ [''RUN chmod -R a+rw .'']
      in
      (case entrypoint of
         Some e \<Rightarrow> if e \<noteq> [] then lines @ [''ENTRYPOINT '' @ e] else lines
       | None \<Rightarrow> lines))"

section \<open>The build strategy selector\<close>

text \<open>\<^verbatim>\<open>PipelineDockerImageBuilder.build_docker_image\<close>, local by local.\<close>

definition requires_zenml_build :: "DockerConfiguration \<Rightarrow> string option \<Rightarrow> bool" where
  "requires_zenml_build docker_configuration entrypoint =
     (truthy_requirements (requirements docker_configuration)
      \<or> required_integrations docker_configuration \<noteq> []
      \<or> replicate_local_python_environment docker_configuration \<noteq> None
      \<or> install_stack_requirements docker_configuration
      \<or> environment docker_configuration \<noteq> []
      \<or> copy_files docker_configuration
      \<or> copy_profile docker_configuration
      \<or> truthy_str entrypoint)"

text \<open>\<^verbatim>\<open>docker_configuration.parent_image or self.docker_parent_image or
  DEFAULT_DOCKER_PARENT_IMAGE\<close>.\<close>

definition resolve_parent_image ::
  "External \<Rightarrow> PipelineDockerImageBuilder \<Rightarrow> DockerConfiguration \<Rightarrow> string" where
  "resolve_parent_image ext self docker_configuration =
     (case or_str (parent_image docker_configuration) (docker_parent_image self) of
        Some img \<Rightarrow> if img \<noteq> [] then img else DEFAULT_DOCKER_PARENT_IMAGE ext
      | None \<Rightarrow> DEFAULT_DOCKER_PARENT_IMAGE ext)"

definition ValueError_message :: string where
  "ValueError_message =
     ''Unable to run a ZenML pipeline with the given Docker '' @
     ''configuration: No Dockerfile or custom parent image '' @
     ''specified and no files will be copied or requirements '' @
     ''installed.''"

text \<open>The body of \<^verbatim>\<open>elif not requires_zenml_build:\<close>: the \<open>ValueError\<close>, or the
  tagging of the parent image that is used as it is.\<close>

definition use_parent_image_directly ::
  "External \<Rightarrow> string \<Rightarrow> string \<Rightarrow> (error + string) \<times> event list" where
  "use_parent_image_directly ext target_image_name parent =
     (if parent = DEFAULT_DOCKER_PARENT_IMAGE ext
      then (Inl (ValueError ValueError_message), [])
      else
        (case call ext (TagImage parent target_image_name) of
           (Inl e, evs) \<Rightarrow> (Inl e, evs)
         | (Inr u, evs) \<Rightarrow> (Inr parent, evs)))"

text \<open>
  The custom build call passes \<^verbatim>\<open>image_name=\<close>, \<^verbatim>\<open>dockerfile=\<close> and
  \<^verbatim>\<open>build_context_root=\<close> and then \<^verbatim>\<open>**docker_configuration.build_options\<close>.  When
  \<open>build_options\<close> holds one of these three names as a key, Python raises \<open>TypeError\<close>
  (a keyword argument given twice) while it evaluates the call, and
  \<^verbatim>\<open>docker_utils.build_image\<close> is not called.
\<close>

definition keyword_collision :: "(string \<times> string) list \<Rightarrow> bool" where
  "keyword_collision options =
     (''image_name'' \<in> set (map fst options)
      \<or> ''dockerfile'' \<in> set (map fst options)
      \<or> ''build_context_root'' \<in> set (map fst options))"

text \<open>
  The first \<^verbatim>\<open>if\<close>/\<^verbatim>\<open>elif\<close> of the function.  It returns the value of the local
  \<open>parent_image\<close> afterwards.  \<^verbatim>\<open>if docker_configuration.dockerfile:\<close> is false for
  \<open>None\<close> and for the empty string.
\<close>

definition custom_dockerfile_stage ::
  "External \<Rightarrow> string \<Rightarrow> string \<Rightarrow> DockerConfiguration \<Rightarrow> bool \<Rightarrow> string
     \<Rightarrow> (error + string) \<times> event list" where
  "custom_dockerfile_stage ext target_image_name pipeline_name docker_configuration
       requires_build parent =
     (let no_dockerfile =
            (if \<not> requires_build then use_parent_image_directly ext target_image_name parent
             else (Inr parent, []))
      in
      case dockerfile docker_configuration of
        None \<Rightarrow> no_dockerfile
      | Some path \<Rightarrow>
          if path = [] then no_dockerfile
          else
            (let user_image_name =
                   (if requires_build then ''zenml-intermediate-build:'' @ pipeline_name
                    else target_image_name);
                 parent = (if requires_build then user_image_name else parent)
             in
             if keyword_collision (build_options docker_configuration)
             then (Inl TypeError, [])
             else
               (case call ext (BuildImage user_image_name (DockerfilePath path)
                                 (build_context_root docker_configuration)
                                 (BuildOptions (build_options docker_configuration))) of
                  (Inl e, evs) \<Rightarrow> (Inl e, evs)
                | (Inr u, evs) \<Rightarrow> (Inr parent, evs))))"

text \<open>
  The context manager \<^verbatim>\<open>_include_active_profile\<close> around a body: the copy, then the
  body unless the copy raised, then \<^verbatim>\<open>fileio.rmtree\<close> in the \<^verbatim>\<open>finally\<close> clause.
  An exception of \<^verbatim>\<open>rmtree\<close> replaces the one in flight.
\<close>

definition include_active_profile ::
  "External \<Rightarrow> string option \<Rightarrow> string \<Rightarrow> (error + unit) \<times> event list
     \<Rightarrow> (error + unit) \<times> event list" where
  "include_active_profile ext context_root load_config_path body =
     (case context_root of
        None \<Rightarrow> (Inl TypeError, [])
      | Some root \<Rightarrow>
          (let config_path = os_path_join root DOCKER_IMAGE_ZENML_CONFIG_DIR;
               tried =
                 (case call ext (CopyActiveConfiguration config_path load_config_path) of
                    (Inl e, evs) \<Rightarrow> (Inl e, evs)
                  | (Inr u, evs) \<Rightarrow> (fst body, evs @ snd body))
           in
           case call ext (Rmtree config_path) of
             (Inl e, evs) \<Rightarrow> (Inl e, snd tried @ evs)
           | (Inr u, evs) \<Rightarrow> (fst tried, snd tried @ evs)))"

definition pull_parent_image :: "External \<Rightarrow> string \<Rightarrow> bool" where
  "pull_parent_image ext parent =
     (if parent = DEFAULT_DOCKER_PARENT_IMAGE ext then False
      else \<not> is_local_image ext parent)"

text \<open>
  The body of the last \<^verbatim>\<open>if requires_zenml_build:\<close>.  First its local
  \<open>build_context_root\<close>, then the call of \<^verbatim>\<open>docker_utils.build_image\<close> inside the
  \<^verbatim>\<open>with\<close> block with the locals \<open>dockerfile\<close> and \<open>pull_parent_image\<close> it passes,
  then the stage itself.
\<close>

definition synthesis_context_root :: "External \<Rightarrow> DockerConfiguration \<Rightarrow> string option" where
  "synthesis_context_root ext docker_configuration =
     (let requires_build_context =
            (copy_files docker_configuration \<or> copy_profile docker_configuration)
      in if requires_build_context then Some (get_source_root_path ext) else None)"

definition synthesis_build_call ::
  "External \<Rightarrow> string \<Rightarrow> DockerConfiguration \<Rightarrow> (string \<times> string) list \<Rightarrow> string option
     \<Rightarrow> string \<Rightarrow> event" where
  "synthesis_build_call ext target_image_name docker_configuration requirement_files
       entrypoint parent =
     (let requirements_file_names = map fst requirement_files;
          dockerfile_lines =
            generate_zenml_pipeline_dockerfile (ENV_ZENML_CONFIG_PATH ext) (str_upper ext) parent
              docker_configuration requirements_file_names entrypoint;
          pull = pull_parent_image ext parent
      in BuildImage target_image_name (DockerfileLines dockerfile_lines)
           (synthesis_context_root ext docker_configuration)
           (SynthArgs (dockerignore docker_configuration) requirement_files pull))"

definition synthesis_stage ::
  "External \<Rightarrow> string \<Rightarrow> DockerConfiguration \<Rightarrow> Stack \<Rightarrow> string option \<Rightarrow> string
     \<Rightarrow> (error + unit) \<times> event list" where
  "synthesis_stage ext target_image_name docker_configuration stack entrypoint parent =
     (case gather_requirements_files ext docker_configuration stack of
        Inl e \<Rightarrow> (Inl e, [])
      | Inr requirement_files \<Rightarrow>
          (let body =
                 call ext (synthesis_build_call ext target_image_name docker_configuration
                             requirement_files entrypoint parent)
           in
           if copy_profile docker_configuration
           then include_active_profile ext (synthesis_context_root ext docker_configuration)
                  DOCKER_IMAGE_ZENML_CONFIG_PATH body
           else body))"

definition build_docker_image ::
  "External \<Rightarrow> PipelineDockerImageBuilder \<Rightarrow> string \<Rightarrow> string \<Rightarrow> DockerConfiguration
     \<Rightarrow> Stack \<Rightarrow> string option \<Rightarrow> (error + unit) \<times> event list" where
  "build_docker_image ext self target_image_name pipeline_name docker_configuration stack
       entrypoint =
     (let requires_build = requires_zenml_build docker_configuration entrypoint;
          parent = resolve_parent_image ext self docker_configuration
      in
      case custom_dockerfile_stage ext target_image_name pipeline_name docker_configuration
             requires_build parent of
        (Inl e, evs) \<Rightarrow> (Inl e, evs)
      | (Inr parent, evs) \<Rightarrow>
          if requires_build then
            (case synthesis_stage ext target_image_name docker_configuration stack entrypoint
                    parent of
               (r, evs') \<Rightarrow> (r, evs @ evs'))
          else (Inr (), evs))"

section \<open>The registry publisher\<close>

definition no_container_registry_message :: "Stack \<Rightarrow> string" where
  "no_container_registry_message stack =
     ''Unable to build and push Docker image because stack '' @
     ''`'' @ name stack @ ''` has no container registry.''"

text \<open>
  \<^verbatim>\<open>PipelineDockerImageBuilder.build_and_push_docker_image\<close>.  The mutable mapping
  \<open>runtime_configuration\<close> is passed in and returned.
\<close>

definition build_and_push_docker_image ::
  "External \<Rightarrow> PipelineDockerImageBuilder \<Rightarrow> string \<Rightarrow> DockerConfiguration \<Rightarrow> Stack
     \<Rightarrow> (string \<rightharpoonup> string) \<Rightarrow> string option
     \<Rightarrow> (error + string) \<times> event list \<times> (string \<rightharpoonup> string)" where
  "build_and_push_docker_image ext self pipeline_name docker_configuration stack
       runtime_configuration entrypoint =
     (case container_registry stack of
        None \<Rightarrow>
          (Inl (RuntimeError (no_container_registry_message stack)), [], runtime_configuration)
      | Some registry \<Rightarrow>
          (let target_image_name =
                 uri registry @ ''/'' @ target_repository docker_configuration @ '':'' @
                 pipeline_name
           in
           case build_docker_image ext self target_image_name pipeline_name
                  docker_configuration stack entrypoint of
             (Inl e, evs) \<Rightarrow> (Inl e, evs, runtime_configuration)
           | (Inr u, evs) \<Rightarrow>
               (case push_image registry target_image_name of
                  Inl x \<Rightarrow>
                    (Inl (Propagated x), evs @ [PushImage target_image_name],
                     runtime_configuration)
                | Inr repo_digest \<Rightarrow>
                    (Inr repo_digest, evs @ [PushImage target_image_name],
                     runtime_configuration(''docker_image'' \<mapsto> repo_digest)))))"

section \<open>Specification-side notions and example inputs\<close>

text \<open>
  The union the specification speaks of, in its own words: the requirement strings that
  the integration registry declares for every name in \<open>required_integrations\<close>, plus
  \<^verbatim>\<open>stack.requirements()\<close> when \<open>install_stack_requirements\<close> is true.  It is used to
  state properties only; the collator is \<^const>\<open>gather_requirements_files\<close>.
\<close>

definition spec_integration_union ::
  "External \<Rightarrow> DockerConfiguration \<Rightarrow> Stack \<Rightarrow> string set" where
  "spec_integration_union ext cfg stack =
     (\<Union>integration \<in> set (required_integrations cfg).
        case select_integration_requirements ext integration of
          Inr reqs \<Rightarrow> set reqs
        | Inl x \<Rightarrow> {})
     \<union> (if install_stack_requirements cfg then set (stack_requirements stack) else {})"

text \<open>Which recorded calls are calls of \<^verbatim>\<open>docker_utils.build_image\<close> and of
  \<^verbatim>\<open>fileio.rmtree\<close>.\<close>

fun is_build_image :: "event \<Rightarrow> bool" where
  "is_build_image (BuildImage image_name dockerfile_src context_root kwargs) = True"
| "is_build_image ev = False"

fun is_rmtree :: "event \<Rightarrow> bool" where
  "is_rmtree (Rmtree path) = True"
| "is_rmtree ev = False"

text \<open>
  For the example world, \<^verbatim>\<open>str.upper\<close> as it acts on ASCII text: the 26 lower-case
  letters are mapped and every other byte is kept.  The examples use ASCII keys only.
\<close>

definition ascii_upper_char :: "char \<Rightarrow> char" where
  "ascii_upper_char c =
     (case map_of (zip ''abcdefghijklmnopqrstuvwxyz'' ''ABCDEFGHIJKLMNOPQRSTUVWXYZ'') c of
        Some u \<Rightarrow> u
      | None \<Rightarrow> c)"

definition ascii_upper :: "string \<Rightarrow> string" where
  "ascii_upper s = map ascii_upper_char s"

text \<open>
  A well-behaved outside world: no call raises, the export command prints nothing, the
  requirements file holds one package, the integrations \<open>aws\<close> and \<open>kubeflow\<close> declare
  the requirements of \<^verbatim>\<open>zenml/integrations/aws\<close> and \<^verbatim>\<open>zenml/integrations/kubeflow\<close>,
  and no image is local.
\<close>

definition example_external :: External where
  "example_external =
     \<lparr> zenml_version = ''0.13.0'',
       python_major = ''3'',
       python_minor = ''8'',
       ENV_ZENML_CONFIG_PATH = ''ZENML_CONFIG_PATH'',
       str_upper = ascii_upper,
       check_output = (\<lambda>cmd. Stdout []),
       read_file_contents_as_string = (\<lambda>path. Inr ''numpy''),
       select_integration_requirements =
         (\<lambda>integration.
            if integration = ''aws'' then Inr [''boto3==1.21.0'', ''sagemaker==2.82.2'']
            else if integration = ''kubeflow'' then Inr [''kfp==1.8.9'']
            else Inl ''KeyError''),
       is_local_image = (\<lambda>img. False),
       get_source_root_path = ''/repo'',
       raises = (\<lambda>ev. None) \<rparr>"

definition example_registry :: ContainerRegistry where
  "example_registry =
     \<lparr> uri = ''registry.example.com'', push_image = (\<lambda>img. Inr (img @ ''@sha256:0'')) \<rparr>"

definition example_stack :: Stack where
  "example_stack =
     \<lparr> name = ''default'',
       container_registry = Some example_registry,
       stack_requirements = [''kfp==1.8.9'', ''boto3==1.21.0''] \<rparr>"

definition example_builder :: PipelineDockerImageBuilder where
  "example_builder = \<lparr> docker_parent_image = None \<rparr>"

text \<open>A configuration in which nothing is requested: every option unset, empty or false.\<close>

definition bare_configuration :: DockerConfiguration where
  "bare_configuration =
     DockerConfiguration_default
       \<lparr> install_stack_requirements := False, copy_files := False, copy_profile := False \<rparr>"

text \<open>
  Two values the properties below speak of: the local \<open>parent_image\<close> when the synthesis
  stage starts (the intermediate image after a custom Dockerfile build, the resolved parent
  image otherwise), and the local \<open>config_path\<close> of the profile copy made for the synthesis
  build.
\<close>

definition effective_parent_image ::
  "External \<Rightarrow> PipelineDockerImageBuilder \<Rightarrow> string \<Rightarrow> DockerConfiguration \<Rightarrow> string" where
  "effective_parent_image ext self pipeline_name cfg =
     (if truthy_str (dockerfile cfg) then ''zenml-intermediate-build:'' @ pipeline_name
      else resolve_parent_image ext self cfg)"

definition profile_copy_path :: "External \<Rightarrow> string" where
  "profile_copy_path ext = os_path_join (get_source_root_path ext) ''.zenconfig''"

text \<open>More example inputs: a custom Dockerfile alone, a custom Dockerfile with an
  environment variable, a custom parent image with the user files copied, and an outside
  world whose image builder always raises.\<close>

definition custom_dockerfile_configuration :: DockerConfiguration where
  "custom_dockerfile_configuration =
     bare_configuration \<lparr> dockerfile := Some ''Dockerfile.custom'' \<rparr>"

definition custom_dockerfile_env_configuration :: DockerConfiguration where
  "custom_dockerfile_env_configuration =
     bare_configuration
       \<lparr> dockerfile := Some ''Dockerfile.custom'', environment := [(''a'', ''1'')] \<rparr>"

text \<open>A custom Dockerfile whose \<open>build_options\<close> repeat the keyword \<^verbatim>\<open>dockerfile\<close>.\<close>

definition colliding_options_configuration :: DockerConfiguration where
  "colliding_options_configuration =
     bare_configuration
       \<lparr> dockerfile := Some ''Dockerfile.custom'',
         build_options := [(''dockerfile'', ''Dockerfile.other'')] \<rparr>"

definition custom_parent_configuration :: DockerConfiguration where
  "custom_parent_configuration =
     bare_configuration \<lparr> parent_image := Some ''python:3.8'', copy_files := True \<rparr>"

text \<open>An outside world in which \<^verbatim>\<open>pip freeze\<close> prints one package, and a configuration
  that fills all three requirement slots.\<close>

definition freezing_external :: External where
  "freezing_external =
     example_external
       \<lparr> check_output :=
           (\<lambda>cmd. if cmd = ''pip freeze'' then Stdout ''zenml==0.13.0''
                  else CalledProcessError) \<rparr>"

definition three_slot_configuration :: DockerConfiguration where
  "three_slot_configuration =
     DockerConfiguration_default
       \<lparr> replicate_local_python_environment := Some PIP_FREEZE,
         requirements := Some (ReqList [''numpy==1.2'', ''pandas'']) \<rparr>"

definition failing_builder_external :: External where
  "failing_builder_external =
     example_external
       \<lparr> raises := (\<lambda>ev. if is_build_image ev then Some ''BuildError'' else None) \<rparr>"

section \<open>Properties of the Dockerfile synthesizer\<close>

lemma foldl_append_each:
  "foldl (\<lambda>acc x. acc @ f x) init xs = init @ concat (map f xs)"
  by (induction xs arbitrary: init) simp_all

lemma foldl_append_pairs:
  "foldl (\<lambda>acc (k, v). acc @ [g k v]) init xs = init @ map (\<lambda>(k, v). g k v) xs"
  by (induction xs arbitrary: init) (simp_all add: case_prod_beta)

text \<open>
  Claim C6.  The synthesized Dockerfile is a function of the parent image, the
  configuration, the requirement file names and the entrypoint (and of the imported
  constant \<^verbatim>\<open>ENV_ZENML_CONFIG_PATH\<close> and the built-in \<^verbatim>\<open>str.upper\<close>) alone, and its
  lines are exactly, in this order:
  the \<^verbatim>\<open>FROM\<close> line of the parent image; the \<^verbatim>\<open>WORKDIR /app\<close> line; if
  \<open>copy_profile\<close>, the \<^verbatim>\<open>ENV\<close> line of the in-image configuration path; one
  \<^verbatim>\<open>ENV\<close> line per entry of \<open>environment\<close> in insertion order, the key upper-cased
  by \<^verbatim>\<open>str.upper\<close> (the argument \<open>upper\<close>, whatever its case mapping);
  for each requirement file name in order a \<^verbatim>\<open>COPY\<close> line immediately followed by its
  \<^verbatim>\<open>RUN pip install\<close> line; \<^verbatim>\<open>COPY . .\<close> if \<open>copy_files\<close>, else the copy of the
  profile directory if \<open>copy_profile\<close>; the \<^verbatim>\<open>RUN chmod -R a+rw .\<close> line; and an
  \<^verbatim>\<open>ENTRYPOINT\<close> line exactly when an entrypoint is provided.  An entrypoint is provided
  when it is a non-empty string: the source tests \<^verbatim>\<open>if entrypoint:\<close> and documents
  ``if left empty, no entrypoint will be included''.  Going from no entrypoint to a
  provided one appends exactly that one trailing line.
\<close>

theorem generate_dockerfile_layout:
  "generate_zenml_pipeline_dockerfile config_path_var upper parent cfg files entrypoint =
     [''FROM '' @ parent, ''WORKDIR /app'']
     @ (if copy_profile cfg then [''ENV '' @ config_path_var @ ''=/app/.zenconfig''] else [])
     @ map (\<lambda>(key, val). ''ENV '' @ upper key @ ''='' @ val) (environment cfg)
     @ concat (map (\<lambda>file. [''COPY '' @ file @ '' .'',
                              ''RUN pip install --no-cache-dir -r '' @ file]) files)
     @ (if copy_files cfg then [''COPY . .'']
        else if copy_profile cfg then [''COPY .zenconfig .''] else [])
     @ [''RUN chmod -R a+rw .'']
     @ (case entrypoint of
          Some e \<Rightarrow> if e \<noteq> [] then [''ENTRYPOINT '' @ e] else []
        | None \<Rightarrow> [])
   \<and> (\<forall>e. e \<noteq> [] \<longrightarrow>
        generate_zenml_pipeline_dockerfile config_path_var upper parent cfg files (Some e) =
        generate_zenml_pipeline_dockerfile config_path_var upper parent cfg files None
          @ [''ENTRYPOINT '' @ e])"
  by (simp add: generate_zenml_pipeline_dockerfile_def Let_def foldl_append_each
        foldl_append_pairs DOCKER_IMAGE_WORKDIR_def DOCKER_IMAGE_ZENML_CONFIG_DIR_def
        DOCKER_IMAGE_ZENML_CONFIG_PATH_def split: option.splits)

theorem generate_dockerfile_layout_witness:
  "generate_zenml_pipeline_dockerfile ''ZENML_CONFIG_PATH'' ascii_upper ''python:3.8''
     (DockerConfiguration_default\<lparr>environment := [(''a'', ''1'')], copy_profile := False\<rparr>)
     [''.zenml_user_requirements''] None =
   [''FROM python:3.8'', ''WORKDIR /app'', ''ENV A=1'',
    ''COPY .zenml_user_requirements .'',
    ''RUN pip install --no-cache-dir -r .zenml_user_requirements'',
    ''COPY . .'', ''RUN chmod -R a+rw .'']
   \<and> generate_zenml_pipeline_dockerfile ''ZENML_CONFIG_PATH'' ascii_upper ''python:3.8''
     (DockerConfiguration_default\<lparr>environment := [(''a'', ''1'')], copy_profile := False\<rparr>)
     [''.zenml_user_requirements''] (Some ''python run.py'') =
   [''FROM python:3.8'', ''WORKDIR /app'', ''ENV A=1'',
    ''COPY .zenml_user_requirements .'',
    ''RUN pip install --no-cache-dir -r .zenml_user_requirements'',
    ''COPY . .'', ''RUN chmod -R a+rw .'', ''ENTRYPOINT python run.py'']"
proof -
  note layout = generate_dockerfile_layout [of "''ZENML_CONFIG_PATH''" ascii_upper
      "''python:3.8''"
      "DockerConfiguration_default\<lparr>environment := [(''a'', ''1'')], copy_profile := False\<rparr>"
      "[''.zenml_user_requirements'']" None]
  have unset: "generate_zenml_pipeline_dockerfile ''ZENML_CONFIG_PATH'' ascii_upper ''python:3.8''
     (DockerConfiguration_default\<lparr>environment := [(''a'', ''1'')], copy_profile := False\<rparr>)
     [''.zenml_user_requirements''] None =
   [''FROM python:3.8'', ''WORKDIR /app'', ''ENV A=1'',
    ''COPY .zenml_user_requirements .'',
    ''RUN pip install --no-cache-dir -r .zenml_user_requirements'',
    ''COPY . .'', ''RUN chmod -R a+rw .'']"
    using layout [THEN conjunct1]
    by (simp add: DockerConfiguration_default_def ascii_upper_def ascii_upper_char_def)
  show ?thesis
    using unset layout [THEN conjunct2, rule_format, of "''python run.py''"] by simp
qed

section \<open>Properties of the requirements collator\<close>

lemma bind_err_Inr_iff:
  "bind_err m f = Inr y \<longleftrightarrow> (\<exists>x. m = Inr x \<and> f x = Inr y)"
  by (cases m) simp_all

lemma propagate_Inr_iff: "propagate r = Inr v \<longleftrightarrow> r = Inr v"
  by (cases r) simp_all

lemma chain_integration_requirements_set:
  "chain_integration_requirements ext ints = Inr chained \<Longrightarrow>
   set chained =
     (\<Union>i\<in>set ints. case select_integration_requirements ext i of
                        Inr reqs \<Rightarrow> set reqs | Inl x \<Rightarrow> {})"
proof (induction ints arbitrary: chained)
  case Nil
  then show ?case by simp
next
  case (Cons i rest)
  from Cons.prems obtain reqs more where
    sel: "select_integration_requirements ext i = Inr reqs" and
    rest: "chain_integration_requirements ext rest = Inr more" and
    chained: "chained = reqs @ more"
    by (auto simp: bind_err_Inr_iff propagate_Inr_iff)
  from Cons.IH [OF rest] sel chained show ?case by simp
qed

lemma local_requirements_stage_Inr:
  "local_requirements_stage ext cfg = Inr loc \<Longrightarrow>
   (replicate_local_python_environment cfg = None \<and> loc = []) \<or>
   (\<exists>method out. replicate_local_python_environment cfg = Some method \<and>
      check_output ext (command method) = Stdout out \<and>
      loc = [(''.zenml_local_requirements'', out)])"
  by (auto simp: local_requirements_stage_def split: option.splits process_result.splits)

lemma user_requirements_text_Inr:
  "user_requirements_text ext cfg = Inr usr \<Longrightarrow>
   (case requirements cfg of
      None \<Rightarrow> usr = None
    | Some (ReqPath path) \<Rightarrow> (\<exists>text. read_file_contents_as_string ext path = Inr text \<and> usr = Some text)
    | Some (ReqList packages) \<Rightarrow> usr = Some (join newline packages))"
  by (auto simp: user_requirements_text_def bind_err_Inr_iff propagate_Inr_iff
      split: option.splits requirements_value.splits)

lemma gather_requirements_files_Inr:
  assumes "gather_requirements_files ext cfg stack = Inr files"
  obtains loc usr chained where
    "local_requirements_stage ext cfg = Inr loc"
    "user_requirements_text ext cfg = Inr usr"
    "chain_integration_requirements ext (required_integrations cfg) = Inr chained"
    "files =
       loc
       @ (case usr of
            Some text \<Rightarrow> if text \<noteq> [] then [(''.zenml_user_requirements'', text)] else []
          | None \<Rightarrow> [])
       @ (if integration_requirements_set cfg stack chained \<noteq> {}
          then [(''.zenml_integration_requirements'',
                 join newline (sorted_list_of_set (integration_requirements_set cfg stack chained)))]
          else [])"
proof -
  from assms obtain loc usr chained where
    loc: "local_requirements_stage ext cfg = Inr loc" and
    usr: "user_requirements_text ext cfg = Inr usr" and
    chained: "chain_integration_requirements ext (required_integrations cfg) = Inr chained" and
    files: "(if integration_requirements_set cfg stack chained \<noteq> {}
       then Inr ((case usr of
                Some text \<Rightarrow>
                  if text \<noteq> [] then loc @ [(''.zenml_user_requirements'', text)] else loc
              | None \<Rightarrow> loc) @
              [(''.zenml_integration_requirements'',
                join newline (sorted_list_of_set (integration_requirements_set cfg stack chained)))])
       else Inr (case usr of
                Some text \<Rightarrow>
                  if text \<noteq> [] then loc @ [(''.zenml_user_requirements'', text)] else loc
              | None \<Rightarrow> loc)) = (Inr files :: error + (string \<times> string) list)"
    unfolding gather_requirements_files_def Let_def bind_err_Inr_iff by blast
  show thesis
    by (rule that [OF loc usr chained]) (use files in \<open>auto split: option.splits if_splits\<close>)
qed

lemma chain_integration_requirements_known:
  "chain_integration_requirements ext ints = Inr chained \<Longrightarrow>
   \<forall>integration \<in> set ints. \<exists>reqs. select_integration_requirements ext integration = Inr reqs"
  by (induction ints arbitrary: chained) (auto simp: bind_err_Inr_iff propagate_Inr_iff)

lemma chain_integration_requirements_returns:
  "\<forall>integration \<in> set ints. \<exists>reqs. select_integration_requirements ext integration = Inr reqs \<Longrightarrow>
   \<exists>chained. chain_integration_requirements ext ints = Inr chained"
  by (induction ints) auto

lemma gather_requirements_files_returns:
  assumes "\<forall>method. replicate_local_python_environment cfg = Some method \<longrightarrow>
             (\<exists>out. check_output ext (command method) = Stdout out)"
    and "\<forall>path. requirements cfg = Some (ReqPath path) \<longrightarrow>
             (\<exists>text. read_file_contents_as_string ext path = Inr text)"
    and "\<forall>integration \<in> set (required_integrations cfg).
             \<exists>reqs. select_integration_requirements ext integration = Inr reqs"
  shows "\<exists>files. gather_requirements_files ext cfg stack = Inr files"
proof -
  from assms(1) obtain loc where loc: "local_requirements_stage ext cfg = Inr loc"
    by (cases "replicate_local_python_environment cfg")
       (auto simp: local_requirements_stage_def)
  have "\<exists>usr. user_requirements_text ext cfg = Inr usr"
  proof (cases "requirements cfg")
    case None
    then show ?thesis by (simp add: user_requirements_text_def)
  next
    case (Some r)
    show ?thesis
    proof (cases r)
      case (ReqPath path)
      with Some assms(2) obtain contents where
        "read_file_contents_as_string ext path = Inr contents"
        by blast
      with Some ReqPath show ?thesis by (simp add: user_requirements_text_def)
    next
      case (ReqList packages)
      with Some show ?thesis by (simp add: user_requirements_text_def)
    qed
  qed
  then obtain usr where usr: "user_requirements_text ext cfg = Inr usr" by blast
  from chain_integration_requirements_returns [OF assms(3)] obtain chained where
    chained: "chain_integration_requirements ext (required_integrations cfg) = Inr chained"
    by blast
  show ?thesis
    by (simp add: gather_requirements_files_def loc usr chained Let_def)
qed

lemma integration_requirements_set_eq:
  assumes "chain_integration_requirements ext (required_integrations cfg) = Inr chained"
  shows "integration_requirements_set cfg stack chained = spec_integration_union ext cfg stack"
  using chain_integration_requirements_set [OF assms]
  by (simp add: integration_requirements_set_def spec_integration_union_def)

lemma finite_spec_integration_union: "finite (spec_integration_union ext cfg stack)"
  by (auto simp: spec_integration_union_def split: sum.splits)

lemma gather_requirements_files_shape:
  assumes "gather_requirements_files ext cfg stack = Inr files"
  obtains loc usr where
    "local_requirements_stage ext cfg = Inr loc"
    "user_requirements_text ext cfg = Inr usr"
    "files =
       loc
       @ (case usr of
            Some text \<Rightarrow> if text \<noteq> [] then [(''.zenml_user_requirements'', text)] else []
          | None \<Rightarrow> [])
       @ (if spec_integration_union ext cfg stack \<noteq> {}
          then [(''.zenml_integration_requirements'',
                 join newline (sorted_list_of_set (spec_integration_union ext cfg stack)))]
          else [])"
  using assms
  by (elim gather_requirements_files_Inr) (simp add: integration_requirements_set_eq)

lemma gather_requirements_files_names:
  assumes "gather_requirements_files ext cfg stack = Inr files"
  obtains usr where
    "user_requirements_text ext cfg = Inr usr"
    "map fst files =
       (case replicate_local_python_environment cfg of
          None \<Rightarrow> [] | Some method \<Rightarrow> [''.zenml_local_requirements''])
       @ (case usr of
            Some text \<Rightarrow> if text \<noteq> [] then [''.zenml_user_requirements''] else []
          | None \<Rightarrow> [])
       @ (if spec_integration_union ext cfg stack \<noteq> {}
          then [''.zenml_integration_requirements''] else [])"
proof -
  from assms obtain loc usr where
    loc: "local_requirements_stage ext cfg = Inr loc" and
    usr: "user_requirements_text ext cfg = Inr usr" and
    files: "files =
       loc
       @ (case usr of
            Some text \<Rightarrow> if text \<noteq> [] then [(''.zenml_user_requirements'', text)] else []
          | None \<Rightarrow> [])
       @ (if spec_integration_union ext cfg stack \<noteq> {}
          then [(''.zenml_integration_requirements'',
                 join newline (sorted_list_of_set (spec_integration_union ext cfg stack)))]
          else [])"
    by (rule gather_requirements_files_shape)
  have "map fst loc =
       (case replicate_local_python_environment cfg of
          None \<Rightarrow> [] | Some method \<Rightarrow> [''.zenml_local_requirements''])"
    using local_requirements_stage_Inr [OF loc] by (elim disjE exE conjE) simp_all
  then show thesis
    by (intro that [OF usr]) (simp add: files split: option.splits)
qed


lemma subseq_three_slots:
  "subseq ((if a then [x] else []) @ (if b then [y] else []) @ (if c then [z] else []))
     [x, y, z]"
  by simp

lemma user_slot_present:
  assumes "user_requirements_text ext cfg = Inr usr"
  shows "(case usr of Some text \<Rightarrow> text \<noteq> [] | None \<Rightarrow> False) \<longleftrightarrow>
         (case requirements cfg of
             None \<Rightarrow> False
           | Some (ReqPath path) \<Rightarrow>
               (\<exists>text. read_file_contents_as_string ext path = Inr text \<and> text \<noteq> [])
           | Some (ReqList packages) \<Rightarrow> join newline packages \<noteq> [])"
proof (cases "requirements cfg")
  case None
  with user_requirements_text_Inr [OF assms] show ?thesis by simp
next
  case (Some r)
  show ?thesis
  proof (cases r)
    case (ReqPath path)
    with Some user_requirements_text_Inr [OF assms] show ?thesis by auto
  next
    case (ReqList packages)
    with Some user_requirements_text_Inr [OF assms] show ?thesis by simp
  qed
qed

lemma gather_requirements_files_contents:
  assumes "gather_requirements_files ext cfg stack = Inr files"
  shows "(''.zenml_local_requirements'', content) \<in> set files \<Longrightarrow>
           \<exists>method. replicate_local_python_environment cfg = Some method
             \<and> check_output ext (command method) = Stdout content"
    and "(''.zenml_user_requirements'', content) \<in> set files \<Longrightarrow>
           content \<noteq> []
           \<and> (case requirements cfg of
                 None \<Rightarrow> False
               | Some (ReqPath path) \<Rightarrow> read_file_contents_as_string ext path = Inr content
               | Some (ReqList packages) \<Rightarrow> content = join newline packages)"
    and "distinct (map fst files)"
proof -
  from assms obtain loc usr where
    loc: "local_requirements_stage ext cfg = Inr loc" and
    usr: "user_requirements_text ext cfg = Inr usr" and
    files: "files =
       loc
       @ (case usr of
            Some text \<Rightarrow> if text \<noteq> [] then [(''.zenml_user_requirements'', text)] else []
          | None \<Rightarrow> [])
       @ (if spec_integration_union ext cfg stack \<noteq> {}
          then [(''.zenml_integration_requirements'',
                 join newline (sorted_list_of_set (spec_integration_union ext cfg stack)))]
          else [])"
    by (rule gather_requirements_files_shape)
  note l = local_requirements_stage_Inr [OF loc]
  note u = user_requirements_text_Inr [OF usr]
  show "\<exists>method. replicate_local_python_environment cfg = Some method
             \<and> check_output ext (command method) = Stdout content"
    if "(''.zenml_local_requirements'', content) \<in> set files"
    using that l by (elim disjE exE conjE) (simp_all add: files split: option.splits if_splits)
  have in_usr: "usr = Some content \<and> content \<noteq> []"
    if "(''.zenml_user_requirements'', content) \<in> set files"
    using that l by (elim disjE exE conjE) (simp_all add: files split: option.splits if_splits)
  show "content \<noteq> []
           \<and> (case requirements cfg of
                 None \<Rightarrow> False
               | Some (ReqPath path) \<Rightarrow> read_file_contents_as_string ext path = Inr content
               | Some (ReqList packages) \<Rightarrow> content = join newline packages)"
    if "(''.zenml_user_requirements'', content) \<in> set files"
    using in_usr [OF that] u
    by (cases "requirements cfg") (auto split: requirements_value.splits)
  show "distinct (map fst files)"
    using l by (elim disjE exE conjE) (simp_all add: files split: option.splits)
qed

lemma example_gather_three_slots:
  "gather_requirements_files freezing_external three_slot_configuration example_stack =
   Inr [(''.zenml_local_requirements'', ''zenml==0.13.0''),
        (''.zenml_user_requirements'', join newline [''numpy==1.2'', ''pandas'']),
        (''.zenml_integration_requirements'', join newline [''boto3==1.21.0'', ''kfp==1.8.9''])]"
  by code_simp

lemma example_gather_integrations:
  "gather_requirements_files example_external
     (bare_configuration\<lparr>required_integrations := [''aws'', ''kubeflow''],
        install_stack_requirements := True\<rparr>)
     example_stack =
   Inr [(''.zenml_integration_requirements'',
         join newline [''boto3==1.21.0'', ''kfp==1.8.9'', ''sagemaker==2.82.2''])]"
  by code_simp

text \<open>
  Claim C4 as stated says that no empty file is ever produced.  With
  \<open>replicate_local_python_environment\<close> set and an export command that prints nothing,
  the collator returns the local requirements file with empty content: the source
  appends it without looking at the output.
\<close>

theorem empty_local_requirements_file_counterexample:
  "gather_requirements_files example_external
     (bare_configuration\<lparr>replicate_local_python_environment := Some PIP_FREEZE\<rparr>)
     example_stack =
   Inr [(''.zenml_local_requirements'', [])]"
  by code_simp

text \<open>
  Claim C4, as amended.  Whenever the collator returns, the names of its files are a
  sub-sequence of the three fixed names in the fixed order local, user, integration, each
  name at most once.  The local slot is present exactly when
  \<open>replicate_local_python_environment\<close> is set, and its file holds exactly what the
  export command printed, even when that is nothing.  The user slot is present exactly
  when the user requirements text, which is the content of the file at the given path or
  the newline-joined list, is non-empty; its file holds that text, so a user requirements
  file is never empty.  The integration slot is present exactly when the union of
  integration and stack requirements is non-empty.
\<close>

theorem requirements_files_slots:
  assumes "gather_requirements_files ext cfg stack = Inr files"
  shows
    "subseq (map fst files)
       [''.zenml_local_requirements'', ''.zenml_user_requirements'',
        ''.zenml_integration_requirements'']
     \<and> distinct (map fst files)
     \<and> (''.zenml_local_requirements'' \<in> set (map fst files) \<longleftrightarrow>
          replicate_local_python_environment cfg \<noteq> None)
     \<and> (\<forall>content. (''.zenml_local_requirements'', content) \<in> set files \<longrightarrow>
          (\<exists>method. replicate_local_python_environment cfg = Some method
             \<and> check_output ext (command method) = Stdout content))
     \<and> (''.zenml_user_requirements'' \<in> set (map fst files) \<longleftrightarrow>
          (case requirements cfg of
             None \<Rightarrow> False
           | Some (ReqPath path) \<Rightarrow>
               (\<exists>text. read_file_contents_as_string ext path = Inr text \<and> text \<noteq> [])
           | Some (ReqList packages) \<Rightarrow> join newline packages \<noteq> []))
     \<and> (\<forall>content. (''.zenml_user_requirements'', content) \<in> set files \<longrightarrow>
          content \<noteq> []
          \<and> (case requirements cfg of
                None \<Rightarrow> False
              | Some (ReqPath path) \<Rightarrow> read_file_contents_as_string ext path = Inr content
              | Some (ReqList packages) \<Rightarrow> content = join newline packages))
     \<and> (''.zenml_integration_requirements'' \<in> set (map fst files) \<longleftrightarrow>
          spec_integration_union ext cfg stack \<noteq> {})"
proof -
  define a where "a \<longleftrightarrow> replicate_local_python_environment cfg \<noteq> None"
  define c where "c \<longleftrightarrow> spec_integration_union ext cfg stack \<noteq> {}"
  from assms obtain usr where
    usr: "user_requirements_text ext cfg = Inr usr" and
    names0: "map fst files =
       (case replicate_local_python_environment cfg of
          None \<Rightarrow> [] | Some method \<Rightarrow> [''.zenml_local_requirements''])
       @ (case usr of
            Some text \<Rightarrow> if text \<noteq> [] then [''.zenml_user_requirements''] else []
          | None \<Rightarrow> [])
       @ (if spec_integration_union ext cfg stack \<noteq> {}
          then [''.zenml_integration_requirements''] else [])"
    by (rule gather_requirements_files_names)
  define b where "b \<longleftrightarrow> (case usr of Some text \<Rightarrow> text \<noteq> [] | None \<Rightarrow> False)"
  have names: "map fst files =
       (if a then [''.zenml_local_requirements''] else [])
       @ (if b then [''.zenml_user_requirements''] else [])
       @ (if c then [''.zenml_integration_requirements''] else [])"
    unfolding names0 a_def b_def c_def by (simp split: option.splits)
  have order: "subseq (map fst files)
       [''.zenml_local_requirements'', ''.zenml_user_requirements'',
        ''.zenml_integration_requirements'']"
    unfolding names by (rule subseq_three_slots)
  have local: "''.zenml_local_requirements'' \<in> set (map fst files) \<longleftrightarrow> a"
    unfolding names by simp
  have user: "''.zenml_user_requirements'' \<in> set (map fst files) \<longleftrightarrow> b"
    unfolding names by simp
  have integ: "''.zenml_integration_requirements'' \<in> set (map fst files) \<longleftrightarrow> c"
    unfolding names by simp
  note contents = gather_requirements_files_contents [OF assms]
  have local_content: "\<forall>content. (''.zenml_local_requirements'', content) \<in> set files \<longrightarrow>
          (\<exists>method. replicate_local_python_environment cfg = Some method
             \<and> check_output ext (command method) = Stdout content)"
    using contents(1) by blast
  have user_content: "\<forall>content. (''.zenml_user_requirements'', content) \<in> set files \<longrightarrow>
          content \<noteq> []
          \<and> (case requirements cfg of
                None \<Rightarrow> False
              | Some (ReqPath path) \<Rightarrow> read_file_contents_as_string ext path = Inr content
              | Some (ReqList packages) \<Rightarrow> content = join newline packages)"
    using contents(2) by blast
  have user': "''.zenml_user_requirements'' \<in> set (map fst files) \<longleftrightarrow>
          (case requirements cfg of
             None \<Rightarrow> False
           | Some (ReqPath path) \<Rightarrow>
               (\<exists>text. read_file_contents_as_string ext path = Inr text \<and> text \<noteq> [])
           | Some (ReqList packages) \<Rightarrow> join newline packages \<noteq> [])"
    using user user_slot_present [OF usr] unfolding b_def by simp
  from order contents(3) local local_content user' user_content integ
  show ?thesis unfolding a_def c_def by blast
qed

theorem requirements_files_slots_witness:
  "gather_requirements_files freezing_external three_slot_configuration example_stack =
   Inr [(''.zenml_local_requirements'', ''zenml==0.13.0''),
        (''.zenml_user_requirements'', join newline [''numpy==1.2'', ''pandas'']),
        (''.zenml_integration_requirements'', join newline [''boto3==1.21.0'', ''kfp==1.8.9''])]
   \<and> replicate_local_python_environment three_slot_configuration \<noteq> None
   \<and> (\<exists>method. replicate_local_python_environment three_slot_configuration = Some method
         \<and> check_output freezing_external (command method) = Stdout ''zenml==0.13.0'')
   \<and> requirements three_slot_configuration = Some (ReqList [''numpy==1.2'', ''pandas''])
   \<and> spec_integration_union freezing_external three_slot_configuration example_stack \<noteq> {}"
proof -
  note slots = requirements_files_slots [OF example_gather_three_slots]
  have reqs: "requirements three_slot_configuration = Some (ReqList [''numpy==1.2'', ''pandas''])"
    by (simp add: three_slot_configuration_def)
  from slots have "replicate_local_python_environment three_slot_configuration \<noteq> None"
    by simp
  moreover from slots
  have "\<exists>method. replicate_local_python_environment three_slot_configuration = Some method
         \<and> check_output freezing_external (command method) = Stdout ''zenml==0.13.0''"
    by simp
  moreover from slots
  have "spec_integration_union freezing_external three_slot_configuration example_stack \<noteq> {}"
    by simp
  ultimately show ?thesis
    using example_gather_three_slots reqs by simp
qed

lemma gather_requirements_files_integration_entry:
  assumes "gather_requirements_files ext cfg stack = Inr files"
  shows "map_of files ''.zenml_integration_requirements'' =
           (if spec_integration_union ext cfg stack = {} then None
            else Some (join newline (sorted_list_of_set (spec_integration_union ext cfg stack))))"
    and "(''.zenml_integration_requirements'', content) \<in> set files \<Longrightarrow>
           spec_integration_union ext cfg stack \<noteq> {} \<and>
           content = join newline (sorted_list_of_set (spec_integration_union ext cfg stack))"
proof -
  from assms obtain loc usr where
    loc: "local_requirements_stage ext cfg = Inr loc" and
    files: "files =
       loc
       @ (case usr of
            Some text \<Rightarrow> if text \<noteq> [] then [(''.zenml_user_requirements'', text)] else []
          | None \<Rightarrow> [])
       @ (if spec_integration_union ext cfg stack \<noteq> {}
          then [(''.zenml_integration_requirements'',
                 join newline (sorted_list_of_set (spec_integration_union ext cfg stack)))]
          else [])"
    by (rule gather_requirements_files_shape)
  from local_requirements_stage_Inr [OF loc]
  have l: "loc = [] \<or> (\<exists>out. loc = [(''.zenml_local_requirements'', out)])" by blast
  from l show "map_of files ''.zenml_integration_requirements'' =
           (if spec_integration_union ext cfg stack = {} then None
            else Some (join newline (sorted_list_of_set (spec_integration_union ext cfg stack))))"
    by (elim disjE exE) (simp_all add: files split: option.splits)
  from l show "(''.zenml_integration_requirements'', content) \<in> set files \<Longrightarrow>
           spec_integration_union ext cfg stack \<noteq> {} \<and>
           content = join newline (sorted_list_of_set (spec_integration_union ext cfg stack))"
    by (elim disjE exE) (simp_all add: files split: option.splits if_splits)
qed

text \<open>
  Claim C5.  Whenever the collator returns, the integration registry knows every name in
  \<open>required_integrations\<close>, and the integration requirements file is emitted
  exactly when the union of the requirement strings of every name in
  \<open>required_integrations\<close> and, if \<open>install_stack_requirements\<close>, of
  \<^verbatim>\<open>stack.requirements()\<close> is non-empty; its content is the newline-joined list of the
  elements of that union in strictly increasing lexicographic order (sorted, no
  duplicates); and two runs whose unions are the same set produce the same file, whatever
  duplicates or order the integrations and the stack declared.
\<close>

theorem integration_requirements_file:
  assumes "gather_requirements_files ext cfg stack = Inr files"
  shows
    "(\<forall>integration \<in> set (required_integrations cfg).
        \<exists>reqs. select_integration_requirements ext integration = Inr reqs)
     \<and> (''.zenml_integration_requirements'' \<in> set (map fst files) \<longleftrightarrow>
        spec_integration_union ext cfg stack \<noteq> {})
     \<and> (\<forall>content. (''.zenml_integration_requirements'', content) \<in> set files \<longrightarrow>
          (\<exists>lines. content = join newline lines \<and> sorted_wrt (<) lines
             \<and> set lines = spec_integration_union ext cfg stack))
     \<and> (\<forall>ext' cfg' stack' files'.
          gather_requirements_files ext' cfg' stack' = Inr files'
          \<and> spec_integration_union ext' cfg' stack' = spec_integration_union ext cfg stack \<longrightarrow>
          map_of files' ''.zenml_integration_requirements'' =
          map_of files ''.zenml_integration_requirements'')"
proof -
  let ?U = "spec_integration_union ext cfg stack"
  have fin: "finite ?U" by (rule finite_spec_integration_union)
  have known: "\<forall>integration \<in> set (required_integrations cfg).
        \<exists>reqs. select_integration_requirements ext integration = Inr reqs"
    using assms
    by (elim gather_requirements_files_Inr) (rule chain_integration_requirements_known)
  have emitted: "''.zenml_integration_requirements'' \<in> set (map fst files) \<longleftrightarrow> ?U \<noteq> {}"
  proof -
    from assms obtain usr where
      "user_requirements_text ext cfg = Inr usr" and
      "map fst files =
         (case replicate_local_python_environment cfg of
            None \<Rightarrow> [] | Some method \<Rightarrow> [''.zenml_local_requirements''])
         @ (case usr of
              Some text \<Rightarrow> if text \<noteq> [] then [''.zenml_user_requirements''] else []
            | None \<Rightarrow> [])
         @ (if ?U \<noteq> {} then [''.zenml_integration_requirements''] else [])"
      by (rule gather_requirements_files_names)
    then show ?thesis by (simp split: option.splits)
  qed
  have content: "\<exists>lines. content = join newline lines \<and> sorted_wrt (<) lines \<and> set lines = ?U"
    if "(''.zenml_integration_requirements'', content) \<in> set files" for content
  proof -
    from gather_requirements_files_integration_entry(2) [OF assms that]
    have "content = join newline (sorted_list_of_set ?U)" by simp
    moreover have "sorted_wrt (<) (sorted_list_of_set ?U)" by (rule strict_sorted_list_of_set)
    moreover have "set (sorted_list_of_set ?U) = ?U" using fin by simp
    ultimately show ?thesis by blast
  qed
  have same: "map_of files' ''.zenml_integration_requirements'' =
              map_of files ''.zenml_integration_requirements''"
    if "gather_requirements_files ext' cfg' stack' = Inr files'"
      and "spec_integration_union ext' cfg' stack' = ?U" for ext' cfg' stack' files'
    using gather_requirements_files_integration_entry(1) [OF assms]
      gather_requirements_files_integration_entry(1) [OF that(1)] that(2) by simp
  from known emitted content same show ?thesis by blast
qed

theorem integration_requirements_file_witness:
  "gather_requirements_files example_external
     (bare_configuration\<lparr>required_integrations := [''aws'', ''kubeflow''],
        install_stack_requirements := True\<rparr>)
     example_stack =
   Inr [(''.zenml_integration_requirements'',
         join newline [''boto3==1.21.0'', ''kfp==1.8.9'', ''sagemaker==2.82.2''])]
   \<and> (\<exists>lines. join newline [''boto3==1.21.0'', ''kfp==1.8.9'', ''sagemaker==2.82.2''] =
          join newline lines \<and> sorted_wrt (<) lines
        \<and> set lines = spec_integration_union example_external
             (bare_configuration\<lparr>required_integrations := [''aws'', ''kubeflow''],
                install_stack_requirements := True\<rparr>)
             example_stack)"
  using integration_requirements_file [OF example_gather_integrations]
    example_gather_integrations
  by simp

section \<open>Properties of the build strategy selector\<close>

lemma fst_call: "fst (call ext ev) = (case raises ext ev of None \<Rightarrow> Inr () | Some x \<Rightarrow> Inl (Propagated x))"
  by (simp add: call_def split: option.splits)

lemma snd_call: "snd (call ext ev) = [ev]"
  by (simp add: call_def split: option.splits)

lemma requires_zenml_build_default:
  "requires_zenml_build DockerConfiguration_default entrypoint"
  by (simp add: requires_zenml_build_def DockerConfiguration_default_def)

lemma include_active_profile_Some:
  "include_active_profile ext (Some root) load_path body =
     (case raises ext (Rmtree (os_path_join root ''.zenconfig'')) of
        Some y \<Rightarrow> Inl (Propagated y)
      | None \<Rightarrow>
          (case raises ext (CopyActiveConfiguration (os_path_join root ''.zenconfig'') load_path) of
             Some x \<Rightarrow> Inl (Propagated x)
           | None \<Rightarrow> fst body),
      [CopyActiveConfiguration (os_path_join root ''.zenconfig'') load_path]
      @ (if raises ext (CopyActiveConfiguration (os_path_join root ''.zenconfig'') load_path) = None
         then snd body else [])
      @ [Rmtree (os_path_join root ''.zenconfig'')])"
  by (simp add: include_active_profile_def call_def Let_def DOCKER_IMAGE_ZENML_CONFIG_DIR_def
      split: option.splits)

lemma synthesis_stage_Inl:
  "gather_requirements_files ext cfg stack = Inl e \<Longrightarrow>
   synthesis_stage ext target_image_name cfg stack entrypoint parent = (Inl e, [])"
  by (simp add: synthesis_stage_def)

lemma synthesis_stage_Inr:
  assumes "gather_requirements_files ext cfg stack = Inr files"
  shows "synthesis_stage ext target_image_name cfg stack entrypoint parent =
     (if copy_profile cfg then
        (case raises ext (Rmtree (profile_copy_path ext)) of
           Some y \<Rightarrow> Inl (Propagated y)
         | None \<Rightarrow>
             (case raises ext (CopyActiveConfiguration (profile_copy_path ext) ''/app/.zenconfig'') of
                Some x \<Rightarrow> Inl (Propagated x)
              | None \<Rightarrow> fst (call ext (synthesis_build_call ext target_image_name cfg files entrypoint parent))),
         [CopyActiveConfiguration (profile_copy_path ext) ''/app/.zenconfig'']
         @ (if raises ext (CopyActiveConfiguration (profile_copy_path ext) ''/app/.zenconfig'') = None
            then [synthesis_build_call ext target_image_name cfg files entrypoint parent] else [])
         @ [Rmtree (profile_copy_path ext)])
      else call ext (synthesis_build_call ext target_image_name cfg files entrypoint parent))"
  using assms
  by (simp add: synthesis_stage_def Let_def include_active_profile_Some snd_call
      synthesis_context_root_def profile_copy_path_def DOCKER_IMAGE_ZENML_CONFIG_PATH_def
      DOCKER_IMAGE_WORKDIR_def DOCKER_IMAGE_ZENML_CONFIG_DIR_def
      split: option.splits)

lemma build_docker_image_with_dockerfile:
  assumes "dockerfile cfg = Some path" and "path \<noteq> []"
  shows "build_docker_image ext self target_image_name pipeline_name cfg stack entrypoint =
     (if keyword_collision (build_options cfg) then (Inl TypeError, [])
      else if requires_zenml_build cfg entrypoint then
        (case raises ext (BuildImage (''zenml-intermediate-build:'' @ pipeline_name)
                 (DockerfilePath path) (build_context_root cfg)
                 (BuildOptions (build_options cfg))) of
           Some x \<Rightarrow>
             (Inl (Propagated x),
              [BuildImage (''zenml-intermediate-build:'' @ pipeline_name)
                 (DockerfilePath path) (build_context_root cfg)
                 (BuildOptions (build_options cfg))])
         | None \<Rightarrow>
             (fst (synthesis_stage ext target_image_name cfg stack entrypoint
                     (''zenml-intermediate-build:'' @ pipeline_name)),
              BuildImage (''zenml-intermediate-build:'' @ pipeline_name)
                 (DockerfilePath path) (build_context_root cfg)
                 (BuildOptions (build_options cfg))
              # snd (synthesis_stage ext target_image_name cfg stack entrypoint
                     (''zenml-intermediate-build:'' @ pipeline_name))))
      else
        (fst (call ext (BuildImage target_image_name (DockerfilePath path)
                 (build_context_root cfg) (BuildOptions (build_options cfg)))),
         [BuildImage target_image_name (DockerfilePath path)
            (build_context_root cfg) (BuildOptions (build_options cfg))]))"
  using assms
  by (simp add: build_docker_image_def custom_dockerfile_stage_def call_def Let_def
      split: option.splits prod.splits)

lemma build_docker_image_without_dockerfile:
  assumes "\<not> truthy_str (dockerfile cfg)"
  shows "build_docker_image ext self target_image_name pipeline_name cfg stack entrypoint =
     (if requires_zenml_build cfg entrypoint then
        synthesis_stage ext target_image_name cfg stack entrypoint
          (resolve_parent_image ext self cfg)
      else if resolve_parent_image ext self cfg = DEFAULT_DOCKER_PARENT_IMAGE ext then
        (Inl (ValueError ValueError_message), [])
      else
        (fst (call ext (TagImage (resolve_parent_image ext self cfg) target_image_name)),
         [TagImage (resolve_parent_image ext self cfg) target_image_name]))"
proof -
  have stage: "custom_dockerfile_stage ext target_image_name pipeline_name cfg req parent =
      (if \<not> req then use_parent_image_directly ext target_image_name parent
       else (Inr parent, []))" for req parent
    using assms by (cases "dockerfile cfg") (simp_all add: custom_dockerfile_stage_def)
  show ?thesis
    by (simp add: build_docker_image_def stage use_parent_image_directly_def call_def Let_def
        split: option.splits prod.splits)
qed

lemma build_docker_image_events:
  "(\<exists>pre. snd (build_docker_image ext self target_image_name pipeline_name cfg stack entrypoint) =
            pre @ snd (synthesis_stage ext target_image_name cfg stack entrypoint
                         (effective_parent_image ext self pipeline_name cfg))
         \<and> fst (build_docker_image ext self target_image_name pipeline_name cfg stack entrypoint) =
            fst (synthesis_stage ext target_image_name cfg stack entrypoint
                         (effective_parent_image ext self pipeline_name cfg))
         \<and> (pre = [] \<or> (\<exists>n path c opts. pre = [BuildImage n (DockerfilePath path) c (BuildOptions opts)])))
   \<or> snd (build_docker_image ext self target_image_name pipeline_name cfg stack entrypoint) = []
   \<or> (\<exists>n path c opts.
        snd (build_docker_image ext self target_image_name pipeline_name cfg stack entrypoint) =
          [BuildImage n (DockerfilePath path) c (BuildOptions opts)])
   \<or> (\<exists>a b.
        snd (build_docker_image ext self target_image_name pipeline_name cfg stack entrypoint) =
          [TagImage a b])"
proof (cases "truthy_str (dockerfile cfg)")
  case True
  then obtain path where df: "dockerfile cfg = Some path" "path \<noteq> []"
    by (cases "dockerfile cfg") simp_all
  show ?thesis
    unfolding build_docker_image_with_dockerfile [OF df] effective_parent_image_def
    using True by (simp split: option.splits)
next
  case False
  show ?thesis
    unfolding build_docker_image_without_dockerfile [OF False] effective_parent_image_def
    using False by simp
qed

lemma synthesis_stage_events:
  "snd (synthesis_stage ext target_image_name cfg stack entrypoint parent) =
     (case gather_requirements_files ext cfg stack of
        Inl e \<Rightarrow> []
      | Inr files \<Rightarrow>
          if copy_profile cfg then
            [CopyActiveConfiguration (os_path_join (get_source_root_path ext) ''.zenconfig'')
               ''/app/.zenconfig'']
            @ (if raises ext (CopyActiveConfiguration
                    (os_path_join (get_source_root_path ext) ''.zenconfig'')
                    ''/app/.zenconfig'') = None
               then [synthesis_build_call ext target_image_name cfg files entrypoint parent]
               else [])
            @ [Rmtree (os_path_join (get_source_root_path ext) ''.zenconfig'')]
          else [synthesis_build_call ext target_image_name cfg files entrypoint parent])"
  by (cases "gather_requirements_files ext cfg stack")
     (simp_all add: synthesis_stage_Inl synthesis_stage_Inr snd_call profile_copy_path_def)

lemma synthesis_stage_build_event:
  assumes "BuildImage n (DockerfileLines lines) ctx (SynthArgs ign files pull)
             \<in> set (snd (synthesis_stage ext target_image_name cfg stack entrypoint parent))"
  shows "gather_requirements_files ext cfg stack = Inr files
         \<and> n = target_image_name
         \<and> lines = generate_zenml_pipeline_dockerfile (ENV_ZENML_CONFIG_PATH ext) (str_upper ext) parent cfg
                      (map fst files) entrypoint
         \<and> pull = pull_parent_image ext parent"
  using assms unfolding synthesis_stage_events
  by (cases "gather_requirements_files ext cfg stack")
     (auto simp: synthesis_build_call_def Let_def split: if_splits)

lemma fst_synthesis_stage_copy_profile:
  assumes "gather_requirements_files ext cfg stack = Inr files" and "copy_profile cfg"
    and "raises ext (CopyActiveConfiguration
           (os_path_join (get_source_root_path ext) ''.zenconfig'') ''/app/.zenconfig'') = None"
  shows "fst (synthesis_stage ext target_image_name cfg stack entrypoint parent) =
     (case raises ext (Rmtree (os_path_join (get_source_root_path ext) ''.zenconfig'')) of
        Some y \<Rightarrow> Inl (Propagated y)
      | None \<Rightarrow>
          (case raises ext (synthesis_build_call ext target_image_name cfg files entrypoint parent) of
             Some x \<Rightarrow> Inl (Propagated x)
           | None \<Rightarrow> Inr ()))"
  using assms(2,3)
  by (simp add: synthesis_stage_Inr [OF assms(1)] profile_copy_path_def fst_call
      split: option.splits)

lemma hd_generate_dockerfile:
  "hd (generate_zenml_pipeline_dockerfile v upper parent cfg names entrypoint) = ''FROM '' @ parent"
  by (simp add: generate_zenml_pipeline_dockerfile_def Let_def foldl_append_each
      foldl_append_pairs split: option.splits)

lemma env_lines_generate_dockerfile:
  "(key, val) \<in> set (environment cfg) \<Longrightarrow>
   ''ENV '' @ upper key @ ''='' @ val
     \<in> set (generate_zenml_pipeline_dockerfile v upper parent cfg names entrypoint)"
  by (force simp add: generate_zenml_pipeline_dockerfile_def Let_def foldl_append_each
      foldl_append_pairs split: option.splits)

lemma gather_requirements_files_default:
  "\<exists>files. gather_requirements_files ext DockerConfiguration_default stack = Inr files"
  by (simp add: gather_requirements_files_def local_requirements_stage_def
      user_requirements_text_def DockerConfiguration_default_def Let_def)

subsection \<open>Example runs\<close>

lemma run_bare:
  "build_docker_image example_external example_builder ''registry.example.com/zenml:pipeline''
     ''pipeline'' bare_configuration example_stack None =
   (Inl (ValueError ValueError_message), [])"
  by code_simp

lemma run_default:
  "build_docker_image example_external example_builder ''registry.example.com/zenml:pipeline''
     ''pipeline'' DockerConfiguration_default example_stack None =
   (Inr (),
    [CopyActiveConfiguration ''/repo/.zenconfig'' ''/app/.zenconfig'',
     BuildImage ''registry.example.com/zenml:pipeline''
       (DockerfileLines
          [''FROM zenmldocker/zenml:0.13.0-py3.8'', ''WORKDIR /app'',
           ''ENV ZENML_CONFIG_PATH=/app/.zenconfig'',
           ''COPY .zenml_integration_requirements .'',
           ''RUN pip install --no-cache-dir -r .zenml_integration_requirements'',
           ''COPY . .'', ''RUN chmod -R a+rw .''])
       (Some ''/repo'')
       (SynthArgs None
          [(''.zenml_integration_requirements'',
            join newline [''boto3==1.21.0'', ''kfp==1.8.9''])]
          False),
     Rmtree ''/repo/.zenconfig''])"
  by code_simp

lemma run_default_failing_builder:
  "build_docker_image failing_builder_external example_builder
     ''registry.example.com/zenml:pipeline'' ''pipeline'' DockerConfiguration_default
     example_stack None =
   (Inl (Propagated ''BuildError''),
    [CopyActiveConfiguration ''/repo/.zenconfig'' ''/app/.zenconfig'',
     BuildImage ''registry.example.com/zenml:pipeline''
       (DockerfileLines
          [''FROM zenmldocker/zenml:0.13.0-py3.8'', ''WORKDIR /app'',
           ''ENV ZENML_CONFIG_PATH=/app/.zenconfig'',
           ''COPY .zenml_integration_requirements .'',
           ''RUN pip install --no-cache-dir -r .zenml_integration_requirements'',
           ''COPY . .'', ''RUN chmod -R a+rw .''])
       (Some ''/repo'')
       (SynthArgs None
          [(''.zenml_integration_requirements'',
            join newline [''boto3==1.21.0'', ''kfp==1.8.9''])]
          False),
     Rmtree ''/repo/.zenconfig''])"
  by code_simp

text \<open>The two custom-Dockerfile examples of the specification: a Dockerfile alone is
  built once, under the target name; a Dockerfile with \<^verbatim>\<open>environment={"A": "1"}\<close> is
  built under the intermediate name and then extended by a synthesized Dockerfile that
  holds the line \<^verbatim>\<open>ENV A=1\<close>.\<close>

lemma run_custom_dockerfile:
  "build_docker_image example_external example_builder ''registry.example.com/zenml:pipeline''
     ''pipeline'' custom_dockerfile_configuration example_stack None =
   (Inr (),
    [BuildImage ''registry.example.com/zenml:pipeline'' (DockerfilePath ''Dockerfile.custom'')
       None (BuildOptions [])])"
  by code_simp

lemma run_custom_dockerfile_env:
  "build_docker_image example_external example_builder ''registry.example.com/zenml:pipeline''
     ''pipeline'' custom_dockerfile_env_configuration example_stack None =
   (Inr (),
    [BuildImage ''zenml-intermediate-build:pipeline'' (DockerfilePath ''Dockerfile.custom'')
       None (BuildOptions []),
     BuildImage ''registry.example.com/zenml:pipeline''
       (DockerfileLines
          [''FROM zenml-intermediate-build:pipeline'', ''WORKDIR /app'', ''ENV A=1'',
           ''RUN chmod -R a+rw .''])
       None (SynthArgs None [] True)])"
  by code_simp

lemma run_custom_parent:
  "build_docker_image example_external example_builder ''registry.example.com/zenml:pipeline''
     ''pipeline'' custom_parent_configuration example_stack None =
   (Inr (),
    [BuildImage ''registry.example.com/zenml:pipeline''
       (DockerfileLines
          [''FROM python:3.8'', ''WORKDIR /app'', ''COPY . .'', ''RUN chmod -R a+rw .''])
       (Some ''/repo'') (SynthArgs None [] True)])"
  by code_simp


subsection \<open>The insufficient-configuration error\<close>

text \<open>
  Claim C1 as stated lists \<open>dockerfile\<close>, \<open>requirements\<close>, \<open>required_integrations\<close>,
  \<open>environment\<close>, \<open>copy_files\<close>, \<open>copy_profile\<close>, the entrypoint and the parent
  image, and leaves out \<open>install_stack_requirements\<close> and
  \<open>replicate_local_python_environment\<close>, which the source also tests.  With every listed
  option unset and \<open>install_stack_requirements\<close> at its default \<open>True\<close>, the build does
  not fail: the stack requirements are installed in a synthesized image.
\<close>

theorem stack_requirements_build_counterexample:
  "dockerfile (bare_configuration\<lparr>install_stack_requirements := True\<rparr>) = None
   \<and> requirements (bare_configuration\<lparr>install_stack_requirements := True\<rparr>) = None
   \<and> required_integrations (bare_configuration\<lparr>install_stack_requirements := True\<rparr>) = []
   \<and> environment (bare_configuration\<lparr>install_stack_requirements := True\<rparr>) = []
   \<and> \<not> copy_files (bare_configuration\<lparr>install_stack_requirements := True\<rparr>)
   \<and> \<not> copy_profile (bare_configuration\<lparr>install_stack_requirements := True\<rparr>)
   \<and> parent_image (bare_configuration\<lparr>install_stack_requirements := True\<rparr>) = None
   \<and> docker_parent_image example_builder = None
   \<and> build_docker_image example_external example_builder
       ''registry.example.com/zenml:pipeline'' ''pipeline''
       (bare_configuration\<lparr>install_stack_requirements := True\<rparr>) example_stack None =
     (Inr (),
      [BuildImage ''registry.example.com/zenml:pipeline''
         (DockerfileLines
            [''FROM zenmldocker/zenml:0.13.0-py3.8'', ''WORKDIR /app'',
             ''COPY .zenml_integration_requirements .'',
             ''RUN pip install --no-cache-dir -r .zenml_integration_requirements'',
             ''RUN chmod -R a+rw .''])
         None
         (SynthArgs None
            [(''.zenml_integration_requirements'',
              join newline [''boto3==1.21.0'', ''kfp==1.8.9''])]
            False)])"
  by code_simp

text \<open>
  Claim C1, as amended.  When \<open>dockerfile\<close>, \<open>requirements\<close>,
  \<open>required_integrations\<close> and \<open>environment\<close> are unset or empty,
  \<open>replicate_local_python_environment\<close> is unset, \<open>install_stack_requirements\<close>,
  \<open>copy_files\<close> and \<open>copy_profile\<close> are false, there is no entrypoint and no custom
  parent image on the configuration or on the builder, \<open>build_docker_image\<close> raises the
  \<open>ValueError\<close> and issues no build or tag call (it issues no call at all).
\<close>

theorem insufficient_configuration_error:
  assumes "\<not> truthy_str (dockerfile cfg)"
    and "\<not> truthy_requirements (requirements cfg)"
    and "required_integrations cfg = []"
    and "replicate_local_python_environment cfg = None"
    and "\<not> install_stack_requirements cfg"
    and "environment cfg = []"
    and "\<not> copy_files cfg"
    and "\<not> copy_profile cfg"
    and "\<not> truthy_str entrypoint"
    and "\<not> truthy_str (parent_image cfg)"
    and "\<not> truthy_str (docker_parent_image self)"
  shows "build_docker_image ext self target_image_name pipeline_name cfg stack entrypoint =
           (Inl (ValueError ValueError_message), [])"
proof -
  have req: "\<not> requires_zenml_build cfg entrypoint"
    using assms by (simp add: requires_zenml_build_def)
  have parent: "resolve_parent_image ext self cfg = DEFAULT_DOCKER_PARENT_IMAGE ext"
    using assms(10,11)
    by (cases "parent_image cfg"; cases "docker_parent_image self")
       (simp_all add: resolve_parent_image_def or_str_def)
  have stage: "custom_dockerfile_stage ext target_image_name pipeline_name cfg False
                 (DEFAULT_DOCKER_PARENT_IMAGE ext) = (Inl (ValueError ValueError_message), [])"
    using assms(1)
    by (cases "dockerfile cfg")
       (simp_all add: custom_dockerfile_stage_def use_parent_image_directly_def)
  show ?thesis
    using req by (simp add: build_docker_image_def parent stage)
qed

theorem insufficient_configuration_error_witness:
  "build_docker_image example_external example_builder ''registry.example.com/zenml:pipeline''
     ''pipeline'' bare_configuration example_stack None =
   (Inl (ValueError ValueError_message), [])"
  by (rule insufficient_configuration_error)
     (simp_all add: bare_configuration_def DockerConfiguration_default_def example_builder_def)

subsection \<open>The default configuration\<close>

text \<open>
  Claim C2.  For the configuration constructed with no field supplied, whatever the
  entrypoint, the builder, the stack and the outside world: \<open>requires_zenml_build\<close> is
  true; \<open>build_docker_image\<close> never raises the insufficient-configuration
  \<open>ValueError\<close>; and the synthesis stage runs: the requirements are gathered, the copy of
  the active profile is attempted, the image builder is called with the synthesized
  Dockerfile under the target name unless that copy raised, and the copy is removed.
\<close>

theorem default_configuration_builds:
  "requires_zenml_build DockerConfiguration_default entrypoint
   \<and> (\<forall>message.
         fst (build_docker_image ext self target_image_name pipeline_name
                DockerConfiguration_default stack entrypoint) \<noteq> Inl (ValueError message))
   \<and> (\<exists>files.
         gather_requirements_files ext DockerConfiguration_default stack = Inr files
         \<and> snd (build_docker_image ext self target_image_name pipeline_name
                  DockerConfiguration_default stack entrypoint) =
             [CopyActiveConfiguration
                (os_path_join (get_source_root_path ext) ''.zenconfig'') ''/app/.zenconfig'']
             @ (if raises ext (CopyActiveConfiguration
                     (os_path_join (get_source_root_path ext) ''.zenconfig'')
                     ''/app/.zenconfig'') = None
                then [synthesis_build_call ext target_image_name DockerConfiguration_default
                        files entrypoint
                        (resolve_parent_image ext self DockerConfiguration_default)]
                else [])
             @ [Rmtree (os_path_join (get_source_root_path ext) ''.zenconfig'')])"
proof -
  let ?cfg = DockerConfiguration_default
  have req: "requires_zenml_build ?cfg entrypoint"
    by (rule requires_zenml_build_default)
  have nodf: "\<not> truthy_str (dockerfile ?cfg)" and cp: "copy_profile ?cfg"
    by (simp_all add: DockerConfiguration_default_def)
  obtain files where files: "gather_requirements_files ext ?cfg stack = Inr files"
    using gather_requirements_files_default by blast
  have run: "build_docker_image ext self target_image_name pipeline_name ?cfg stack entrypoint =
      synthesis_stage ext target_image_name ?cfg stack entrypoint
        (resolve_parent_image ext self ?cfg)"
    using req by (simp add: build_docker_image_without_dockerfile [OF nodf])
  have no_value_error:
    "fst (build_docker_image ext self target_image_name pipeline_name ?cfg stack entrypoint)
       \<noteq> Inl (ValueError message)" for message
    unfolding run synthesis_stage_Inr [OF files]
    using cp by (simp add: fst_call split: option.splits)
  have trace: "snd (build_docker_image ext self target_image_name pipeline_name ?cfg stack
                  entrypoint) =
             [CopyActiveConfiguration
                (os_path_join (get_source_root_path ext) ''.zenconfig'') ''/app/.zenconfig'']
             @ (if raises ext (CopyActiveConfiguration
                     (os_path_join (get_source_root_path ext) ''.zenconfig'')
                     ''/app/.zenconfig'') = None
                then [synthesis_build_call ext target_image_name ?cfg files entrypoint
                        (resolve_parent_image ext self ?cfg)]
                else [])
             @ [Rmtree (os_path_join (get_source_root_path ext) ''.zenconfig'')]"
    unfolding run synthesis_stage_Inr [OF files]
    using cp by (simp add: profile_copy_path_def)
  from req no_value_error files trace show ?thesis by blast
qed

theorem default_configuration_builds_witness:
  "requires_zenml_build DockerConfiguration_default None
   \<and> fst (build_docker_image example_external example_builder
            ''registry.example.com/zenml:pipeline'' ''pipeline'' DockerConfiguration_default
            example_stack None) = Inr ()
   \<and> map is_build_image
         (snd (build_docker_image example_external example_builder
                 ''registry.example.com/zenml:pipeline'' ''pipeline''
                 DockerConfiguration_default example_stack None)) = [False, True, False]"
  using default_configuration_builds [of None example_external example_builder
      "''registry.example.com/zenml:pipeline''" "''pipeline''" example_stack]
  by (simp add: run_default)

subsection \<open>A custom Dockerfile\<close>

text \<open>
  Claim C3 as stated promises one build call whenever \<open>dockerfile\<close> is set and none of
  the eight conditions holds.  With a Dockerfile set, nothing else requested and
  \<open>build_options\<close> holding the key \<^verbatim>\<open>dockerfile\<close>, the custom build call names that
  keyword twice: \<open>build_docker_image\<close> raises \<open>TypeError\<close> and issues no build call.
\<close>

theorem keyword_collision_counterexample:
  "dockerfile colliding_options_configuration = Some ''Dockerfile.custom''
   \<and> \<not> requires_zenml_build colliding_options_configuration None
   \<and> build_docker_image example_external example_builder
       ''registry.example.com/zenml:pipeline'' ''pipeline'' colliding_options_configuration
       example_stack None = (Inl TypeError, [])"
  by code_simp

text \<open>
  Claim C3, as amended.  Let \<open>dockerfile\<close> be set, that is, a non-empty path (the source
  tests \<^verbatim>\<open>if docker_configuration.dockerfile:\<close>).  If \<open>build_options\<close> names one of
  the keywords \<^verbatim>\<open>image_name\<close>, \<^verbatim>\<open>dockerfile\<close> or \<^verbatim>\<open>build_context_root\<close>,
  \<open>build_docker_image\<close> raises \<open>TypeError\<close> and issues no call.  Otherwise: if none of
  the eight conditions of \<open>requires_zenml_build\<close> holds, \<open>build_docker_image\<close> issues
  exactly one call, the build of that Dockerfile under \<open>target_image_name\<close>, and no
  synthesis stage.  If at least one condition holds and the collaborators used before the
  second build return normally (the first build, the requirements gathering, the profile
  copy when \<open>copy_profile\<close>), exactly two build calls are issued: the custom Dockerfile
  under \<^verbatim>\<open>zenml-intermediate-build:{pipeline_name}\<close>, then under \<open>target_image_name\<close> a
  synthesized Dockerfile whose first line is the \<^verbatim>\<open>FROM\<close> line of that intermediate name
  and which holds an \<^verbatim>\<open>ENV\<close> line for each configured environment variable, its key
  upper-cased by \<^verbatim>\<open>str.upper\<close>.
\<close>

theorem custom_dockerfile_builds:
  assumes "dockerfile cfg = Some path" and "path \<noteq> []"
  shows
    "(keyword_collision (build_options cfg) \<longrightarrow>
        build_docker_image ext self target_image_name pipeline_name cfg stack entrypoint =
          (Inl TypeError, []))
     \<and> (\<not> keyword_collision (build_options cfg)
          \<and> \<not> requires_zenml_build cfg entrypoint \<longrightarrow>
        snd (build_docker_image ext self target_image_name pipeline_name cfg stack entrypoint) =
          [BuildImage target_image_name (DockerfilePath path) (build_context_root cfg)
             (BuildOptions (build_options cfg))])
     \<and> (\<not> keyword_collision (build_options cfg)
          \<and> requires_zenml_build cfg entrypoint
          \<and> raises ext (BuildImage (''zenml-intermediate-build:'' @ pipeline_name)
                (DockerfilePath path) (build_context_root cfg)
                (BuildOptions (build_options cfg))) = None
          \<and> gather_requirements_files ext cfg stack = Inr files
          \<and> (copy_profile cfg \<longrightarrow>
                raises ext (CopyActiveConfiguration
                  (os_path_join (get_source_root_path ext) ''.zenconfig'')
                  ''/app/.zenconfig'') = None)
        \<longrightarrow>
          (\<exists>lines.
             filter is_build_image
               (snd (build_docker_image ext self target_image_name pipeline_name cfg stack
                       entrypoint)) =
               [BuildImage (''zenml-intermediate-build:'' @ pipeline_name)
                  (DockerfilePath path) (build_context_root cfg)
                  (BuildOptions (build_options cfg)),
                BuildImage target_image_name (DockerfileLines lines)
                  (synthesis_context_root ext cfg)
                  (SynthArgs (dockerignore cfg) files
                     (pull_parent_image ext (''zenml-intermediate-build:'' @ pipeline_name)))]
             \<and> lines =
                 generate_zenml_pipeline_dockerfile (ENV_ZENML_CONFIG_PATH ext) (str_upper ext)
                   (''zenml-intermediate-build:'' @ pipeline_name) cfg (map fst files) entrypoint
             \<and> hd lines = ''FROM zenml-intermediate-build:'' @ pipeline_name
             \<and> (\<forall>(key, val) \<in> set (environment cfg).
                   ''ENV '' @ str_upper ext key @ ''='' @ val \<in> set lines)))"
proof -
  note run = build_docker_image_with_dockerfile [OF assms, of ext self target_image_name
      pipeline_name stack entrypoint]
  have collision: "build_docker_image ext self target_image_name pipeline_name cfg stack
                     entrypoint = (Inl TypeError, [])"
    if "keyword_collision (build_options cfg)"
    using that by (simp add: run)
  have single: "snd (build_docker_image ext self target_image_name pipeline_name cfg stack
                  entrypoint) =
          [BuildImage target_image_name (DockerfilePath path) (build_context_root cfg)
             (BuildOptions (build_options cfg))]"
    if "\<not> keyword_collision (build_options cfg)"
      and "\<not> requires_zenml_build cfg entrypoint"
    using that by (simp add: run)
  have double: "filter is_build_image
               (snd (build_docker_image ext self target_image_name pipeline_name cfg stack
                       entrypoint)) =
               [BuildImage (''zenml-intermediate-build:'' @ pipeline_name)
                  (DockerfilePath path) (build_context_root cfg)
                  (BuildOptions (build_options cfg)),
                BuildImage target_image_name
                  (DockerfileLines
                     (generate_zenml_pipeline_dockerfile (ENV_ZENML_CONFIG_PATH ext) (str_upper ext)
                        (''zenml-intermediate-build:'' @ pipeline_name) cfg (map fst files)
                        entrypoint))
                  (synthesis_context_root ext cfg)
                  (SynthArgs (dockerignore cfg) files
                     (pull_parent_image ext (''zenml-intermediate-build:'' @ pipeline_name)))]"
    if "\<not> keyword_collision (build_options cfg)"
      and "requires_zenml_build cfg entrypoint"
      and "raises ext (BuildImage (''zenml-intermediate-build:'' @ pipeline_name)
                (DockerfilePath path) (build_context_root cfg)
                (BuildOptions (build_options cfg))) = None"
      and "gather_requirements_files ext cfg stack = Inr files"
      and "copy_profile cfg \<longrightarrow>
                raises ext (CopyActiveConfiguration
                  (os_path_join (get_source_root_path ext) ''.zenconfig'')
                  ''/app/.zenconfig'') = None"
    using that
    by (simp add: run synthesis_stage_Inr [OF that(4)] snd_call profile_copy_path_def
        synthesis_build_call_def Let_def)
  have from_line: "hd (generate_zenml_pipeline_dockerfile (ENV_ZENML_CONFIG_PATH ext) (str_upper ext)
                        (''zenml-intermediate-build:'' @ pipeline_name) cfg (map fst files)
                        entrypoint) = ''FROM zenml-intermediate-build:'' @ pipeline_name"
    by (simp add: hd_generate_dockerfile)
  have env_lines: "\<forall>(key, val) \<in> set (environment cfg).
       ''ENV '' @ str_upper ext key @ ''='' @ val
         \<in> set (generate_zenml_pipeline_dockerfile (ENV_ZENML_CONFIG_PATH ext) (str_upper ext)
                        (''zenml-intermediate-build:'' @ pipeline_name) cfg (map fst files)
                        entrypoint)"
    using env_lines_generate_dockerfile by blast
  from collision single double from_line env_lines show ?thesis by blast
qed

theorem custom_dockerfile_builds_witness:
  "build_docker_image example_external example_builder
     ''registry.example.com/zenml:pipeline'' ''pipeline'' colliding_options_configuration
     example_stack None = (Inl TypeError, [])
   \<and> snd (build_docker_image example_external example_builder
          ''registry.example.com/zenml:pipeline'' ''pipeline'' custom_dockerfile_configuration
          example_stack None) =
     [BuildImage ''registry.example.com/zenml:pipeline'' (DockerfilePath ''Dockerfile.custom'')
        None (BuildOptions [])]
   \<and> (\<exists>lines.
        filter is_build_image
          (snd (build_docker_image example_external example_builder
                  ''registry.example.com/zenml:pipeline'' ''pipeline''
                  custom_dockerfile_env_configuration example_stack None)) =
          [BuildImage ''zenml-intermediate-build:pipeline'' (DockerfilePath ''Dockerfile.custom'')
             None (BuildOptions []),
           BuildImage ''registry.example.com/zenml:pipeline'' (DockerfileLines lines)
             None (SynthArgs None [] True)]
        \<and> hd lines = ''FROM zenml-intermediate-build:pipeline''
        \<and> ''ENV A=1'' \<in> set lines)"
proof -
  have df: "dockerfile custom_dockerfile_configuration = Some ''Dockerfile.custom''"
    and df_env: "dockerfile custom_dockerfile_env_configuration = Some ''Dockerfile.custom''"
    and path: "''Dockerfile.custom'' \<noteq> []"
    by (simp_all add: custom_dockerfile_configuration_def
        custom_dockerfile_env_configuration_def bare_configuration_def)
  have not_required: "\<not> requires_zenml_build custom_dockerfile_configuration None"
    by (simp add: requires_zenml_build_def custom_dockerfile_configuration_def
        bare_configuration_def DockerConfiguration_default_def)
  have required: "requires_zenml_build custom_dockerfile_env_configuration None"
    by (simp add: requires_zenml_build_def custom_dockerfile_env_configuration_def
        bare_configuration_def DockerConfiguration_default_def)
  have fields: "build_context_root custom_dockerfile_env_configuration = None"
    "build_options custom_dockerfile_env_configuration = []"
    "dockerignore custom_dockerfile_env_configuration = None"
    "copy_profile custom_dockerfile_env_configuration = False"
    "copy_files custom_dockerfile_env_configuration = False"
    "environment custom_dockerfile_env_configuration = [(''a'', ''1'')]"
    "build_context_root custom_dockerfile_configuration = None"
    "build_options custom_dockerfile_configuration = []"
    by (simp_all add: custom_dockerfile_env_configuration_def custom_dockerfile_configuration_def
        bare_configuration_def DockerConfiguration_default_def)
  have df_colliding: "dockerfile colliding_options_configuration = Some ''Dockerfile.custom''"
    and colliding: "keyword_collision (build_options colliding_options_configuration)"
    by (simp_all add: colliding_options_configuration_def bare_configuration_def
        keyword_collision_def)
  have free: "\<not> keyword_collision (build_options custom_dockerfile_configuration)"
    and free_env: "\<not> keyword_collision (build_options custom_dockerfile_env_configuration)"
    by (simp_all add: keyword_collision_def fields)
  have quiet: "raises example_external ev = None" for ev
    by (simp add: example_external_def)
  have gathered: "gather_requirements_files example_external
      custom_dockerfile_env_configuration example_stack = Inr []"
    by code_simp
  have pull: "pull_parent_image example_external ''zenml-intermediate-build:pipeline'' = True"
    by code_simp
  have upper_a: "str_upper example_external ''a'' = ''A''"
    by code_simp
  note collide =
    custom_dockerfile_builds [OF df_colliding path, where ext = example_external
      and self = example_builder and target_image_name = "''registry.example.com/zenml:pipeline''"
      and pipeline_name = "''pipeline''" and stack = example_stack and entrypoint = None
      and files = "[]", THEN conjunct1, rule_format, OF colliding]
  note single =
    custom_dockerfile_builds [OF df path, where ext = example_external
      and self = example_builder and target_image_name = "''registry.example.com/zenml:pipeline''"
      and pipeline_name = "''pipeline''" and stack = example_stack and entrypoint = None
      and files = "[]", THEN conjunct2, THEN conjunct1, rule_format,
      OF conjI [OF free not_required]]
  note double =
    custom_dockerfile_builds [OF df_env path, where ext = example_external
      and self = example_builder and target_image_name = "''registry.example.com/zenml:pipeline''"
      and pipeline_name = "''pipeline''" and stack = example_stack and entrypoint = None
      and files = "[]", THEN conjunct2, THEN conjunct2, rule_format]
  have "\<exists>lines.
        filter is_build_image
          (snd (build_docker_image example_external example_builder
                  ''registry.example.com/zenml:pipeline'' ''pipeline''
                  custom_dockerfile_env_configuration example_stack None)) =
          [BuildImage ''zenml-intermediate-build:pipeline'' (DockerfilePath ''Dockerfile.custom'')
             None (BuildOptions []),
           BuildImage ''registry.example.com/zenml:pipeline'' (DockerfileLines lines)
             None (SynthArgs None [] True)]
        \<and> hd lines = ''FROM zenml-intermediate-build:pipeline''
        \<and> ''ENV A=1'' \<in> set lines"
    using double required gathered quiet free_env
    by (simp add: fields pull upper_a synthesis_context_root_def)
  with collide single show ?thesis by (simp add: fields)
qed

subsection \<open>The pull flag\<close>

text \<open>
  Claim C7.  Every synthesis build call that \<open>build_docker_image\<close> issues names the
  effective parent image in the \<^verbatim>\<open>FROM\<close> line of its Dockerfile, and its \<open>pull\<close> flag
  is false if and only if that parent image is exactly
  \<open>DEFAULT_DOCKER_PARENT_IMAGE\<close> or \<^verbatim>\<open>docker_utils.is_local_image\<close> reports it as local;
  in every other case the parent is pulled.
\<close>

theorem pull_flag_of_synthesis_build:
  assumes "BuildImage n (DockerfileLines lines) ctx (SynthArgs ign files pull)
             \<in> set (snd (build_docker_image ext self target_image_name pipeline_name cfg stack
                            entrypoint))"
  shows "hd lines = ''FROM '' @ effective_parent_image ext self pipeline_name cfg
         \<and> (pull = False \<longleftrightarrow>
              effective_parent_image ext self pipeline_name cfg = DEFAULT_DOCKER_PARENT_IMAGE ext
              \<or> is_local_image ext (effective_parent_image ext self pipeline_name cfg))"
proof -
  let ?parent = "effective_parent_image ext self pipeline_name cfg"
  from build_docker_image_events [of ext self target_image_name pipeline_name cfg stack entrypoint]
    assms
  have "BuildImage n (DockerfileLines lines) ctx (SynthArgs ign files pull)
             \<in> set (snd (synthesis_stage ext target_image_name cfg stack entrypoint ?parent))"
    by (elim disjE exE conjE) auto
  from synthesis_stage_build_event [OF this]
  have lines: "lines = generate_zenml_pipeline_dockerfile (ENV_ZENML_CONFIG_PATH ext) (str_upper ext) ?parent cfg
                      (map fst files) entrypoint"
    and pull: "pull = pull_parent_image ext ?parent"
    by simp_all
  have "hd lines = ''FROM '' @ ?parent"
    unfolding lines by (rule hd_generate_dockerfile)
  moreover have "pull = False \<longleftrightarrow>
       ?parent = DEFAULT_DOCKER_PARENT_IMAGE ext \<or> is_local_image ext ?parent"
    unfolding pull by (simp add: pull_parent_image_def)
  ultimately show ?thesis by blast
qed

theorem pull_flag_of_synthesis_build_witness:
  "BuildImage ''registry.example.com/zenml:pipeline''
     (DockerfileLines
        [''FROM python:3.8'', ''WORKDIR /app'', ''COPY . .'', ''RUN chmod -R a+rw .''])
     (Some ''/repo'') (SynthArgs None [] True)
     \<in> set (snd (build_docker_image example_external example_builder
                    ''registry.example.com/zenml:pipeline'' ''pipeline''
                    custom_parent_configuration example_stack None))
   \<and> effective_parent_image example_external example_builder ''pipeline''
         custom_parent_configuration = ''python:3.8''
   \<and> ''python:3.8'' \<noteq> DEFAULT_DOCKER_PARENT_IMAGE example_external
   \<and> \<not> is_local_image example_external ''python:3.8''
   \<and> BuildImage ''registry.example.com/zenml:pipeline''
       (DockerfileLines
          [''FROM zenmldocker/zenml:0.13.0-py3.8'', ''WORKDIR /app'',
           ''ENV ZENML_CONFIG_PATH=/app/.zenconfig'',
           ''COPY .zenml_integration_requirements .'',
           ''RUN pip install --no-cache-dir -r .zenml_integration_requirements'',
           ''COPY . .'', ''RUN chmod -R a+rw .''])
       (Some ''/repo'')
       (SynthArgs None
          [(''.zenml_integration_requirements'',
            join newline [''boto3==1.21.0'', ''kfp==1.8.9''])]
          False)
     \<in> set (snd (build_docker_image example_external example_builder
                    ''registry.example.com/zenml:pipeline'' ''pipeline''
                    DockerConfiguration_default example_stack None))
   \<and> effective_parent_image example_external example_builder ''pipeline''
         DockerConfiguration_default = DEFAULT_DOCKER_PARENT_IMAGE example_external"
proof -
  have issued: "BuildImage ''registry.example.com/zenml:pipeline''
     (DockerfileLines
        [''FROM python:3.8'', ''WORKDIR /app'', ''COPY . .'', ''RUN chmod -R a+rw .''])
     (Some ''/repo'') (SynthArgs None [] True)
     \<in> set (snd (build_docker_image example_external example_builder
                    ''registry.example.com/zenml:pipeline'' ''pipeline''
                    custom_parent_configuration example_stack None))"
    by (simp add: run_custom_parent)
  have issued_default: "BuildImage ''registry.example.com/zenml:pipeline''
       (DockerfileLines
          [''FROM zenmldocker/zenml:0.13.0-py3.8'', ''WORKDIR /app'',
           ''ENV ZENML_CONFIG_PATH=/app/.zenconfig'',
           ''COPY .zenml_integration_requirements .'',
           ''RUN pip install --no-cache-dir -r .zenml_integration_requirements'',
           ''COPY . .'', ''RUN chmod -R a+rw .''])
       (Some ''/repo'')
       (SynthArgs None
          [(''.zenml_integration_requirements'',
            join newline [''boto3==1.21.0'', ''kfp==1.8.9''])]
          False)
     \<in> set (snd (build_docker_image example_external example_builder
                    ''registry.example.com/zenml:pipeline'' ''pipeline''
                    DockerConfiguration_default example_stack None))"
    by (simp add: run_default)
  have nothing_local: "\<not> is_local_image example_external img" for img
    by (simp add: example_external_def)
  from pull_flag_of_synthesis_build [OF issued]
  have parent: "effective_parent_image example_external example_builder ''pipeline''
         custom_parent_configuration = ''python:3.8''"
    and pulled: "\<not> (effective_parent_image example_external example_builder ''pipeline''
              custom_parent_configuration = DEFAULT_DOCKER_PARENT_IMAGE example_external
            \<or> is_local_image example_external
                (effective_parent_image example_external example_builder ''pipeline''
                   custom_parent_configuration))"
    by simp_all
  from pull_flag_of_synthesis_build [OF issued_default] nothing_local
  have not_pulled: "effective_parent_image example_external example_builder ''pipeline''
         DockerConfiguration_default = DEFAULT_DOCKER_PARENT_IMAGE example_external"
    by simp
  from issued parent pulled issued_default not_pulled show ?thesis by simp
qed

subsection \<open>Removal of the profile copy\<close>

text \<open>
  Claim C9.  Whenever a run of \<open>build_docker_image\<close> has created the temporary copy of
  the active profile (the copy call was issued and did not raise; this happens only with
  \<open>copy_profile\<close>), the calls that follow the copy are exactly the image-builder call of
  the synthesis stage and then the removal of the copy, which is the last call of the run
  and the only removal.  This holds whether the image-builder call returns or raises: the
  run ends with the builder's error after the removal (or with the error of the removal
  itself), and returns normally when neither raises.
\<close>

theorem profile_copy_removed:
  assumes "CopyActiveConfiguration path load_path
             \<in> set (snd (build_docker_image ext self target_image_name pipeline_name cfg stack
                            entrypoint))"
    and "raises ext (CopyActiveConfiguration path load_path) = None"
  shows "\<exists>pre build_call.
           snd (build_docker_image ext self target_image_name pipeline_name cfg stack entrypoint) =
             pre @ [CopyActiveConfiguration path load_path, build_call, Rmtree path]
           \<and> is_build_image build_call
           \<and> filter is_rmtree
               (snd (build_docker_image ext self target_image_name pipeline_name cfg stack
                       entrypoint)) = [Rmtree path]
           \<and> fst (build_docker_image ext self target_image_name pipeline_name cfg stack
                    entrypoint) =
               (case raises ext (Rmtree path) of
                  Some y \<Rightarrow> Inl (Propagated y)
                | None \<Rightarrow>
                    (case raises ext build_call of
                       Some x \<Rightarrow> Inl (Propagated x)
                     | None \<Rightarrow> Inr ()))
           \<and> copy_profile cfg"
proof -
  let ?run = "build_docker_image ext self target_image_name pipeline_name cfg stack entrypoint"
  let ?parent = "effective_parent_image ext self pipeline_name cfg"
  let ?stage = "synthesis_stage ext target_image_name cfg stack entrypoint ?parent"
  let ?copy = "CopyActiveConfiguration path load_path"
  from build_docker_image_events [of ext self target_image_name pipeline_name cfg stack entrypoint]
    assms(1)
  obtain pre where
    evs: "snd ?run = pre @ snd ?stage" and res: "fst ?run = fst ?stage" and
    pre: "pre = [] \<or> (\<exists>n p c opts. pre = [BuildImage n (DockerfilePath p) c (BuildOptions opts)])"
    by (elim disjE exE conjE) auto
  from pre have pre_rm: "filter is_rmtree pre = []" and pre_copy: "?copy \<notin> set pre"
    by auto
  from assms(1) pre_copy have in_stage: "?copy \<in> set (snd ?stage)"
    by (simp add: evs)
  then obtain files where files: "gather_requirements_files ext cfg stack = Inr files"
    unfolding synthesis_stage_events
    by (cases "gather_requirements_files ext cfg stack") simp_all
  let ?b = "synthesis_build_call ext target_image_name cfg files entrypoint ?parent"
  have b: "is_build_image ?b"
    by (simp add: synthesis_build_call_def Let_def)
  from in_stage have cp: "copy_profile cfg"
    and path: "path = os_path_join (get_source_root_path ext) ''.zenconfig''"
    and load: "load_path = ''/app/.zenconfig''"
    unfolding synthesis_stage_events using files b
    by (auto simp: synthesis_build_call_def Let_def split: if_splits)
  have stage: "snd ?stage = [?copy, ?b, Rmtree path]"
    unfolding synthesis_stage_events using files cp assms(2) by (simp add: path load)
  have trace: "snd ?run = pre @ [?copy, ?b, Rmtree path]"
    by (simp add: evs stage)
  have once: "filter is_rmtree (snd ?run) = [Rmtree path]"
    using b by (simp add: trace pre_rm synthesis_build_call_def Let_def)
  have outcome: "fst ?run =
               (case raises ext (Rmtree path) of
                  Some y \<Rightarrow> Inl (Propagated y)
                | None \<Rightarrow>
                    (case raises ext ?b of
                       Some x \<Rightarrow> Inl (Propagated x)
                     | None \<Rightarrow> Inr ()))"
    unfolding res path
    by (rule fst_synthesis_stage_copy_profile [OF files cp])
       (use assms(2) in \<open>simp add: path load\<close>)
  from trace b once outcome cp show ?thesis by blast
qed

theorem profile_copy_removed_witness:
  "CopyActiveConfiguration ''/repo/.zenconfig'' ''/app/.zenconfig''
     \<in> set (snd (build_docker_image failing_builder_external example_builder
                    ''registry.example.com/zenml:pipeline'' ''pipeline''
                    DockerConfiguration_default example_stack None))
   \<and> raises failing_builder_external
         (CopyActiveConfiguration ''/repo/.zenconfig'' ''/app/.zenconfig'') = None
   \<and> fst (build_docker_image failing_builder_external example_builder
            ''registry.example.com/zenml:pipeline'' ''pipeline''
            DockerConfiguration_default example_stack None) = Inl (Propagated ''BuildError'')
   \<and> filter is_rmtree
         (snd (build_docker_image failing_builder_external example_builder
                 ''registry.example.com/zenml:pipeline'' ''pipeline''
                 DockerConfiguration_default example_stack None)) = [Rmtree ''/repo/.zenconfig'']
   \<and> CopyActiveConfiguration ''/repo/.zenconfig'' ''/app/.zenconfig''
     \<in> set (snd (build_docker_image example_external example_builder
                    ''registry.example.com/zenml:pipeline'' ''pipeline''
                    DockerConfiguration_default example_stack None))
   \<and> raises example_external
         (CopyActiveConfiguration ''/repo/.zenconfig'' ''/app/.zenconfig'') = None
   \<and> fst (build_docker_image example_external example_builder
            ''registry.example.com/zenml:pipeline'' ''pipeline''
            DockerConfiguration_default example_stack None) = Inr ()
   \<and> filter is_rmtree
         (snd (build_docker_image example_external example_builder
                 ''registry.example.com/zenml:pipeline'' ''pipeline''
                 DockerConfiguration_default example_stack None)) = [Rmtree ''/repo/.zenconfig'']"
proof -
  have copied_failing: "CopyActiveConfiguration ''/repo/.zenconfig'' ''/app/.zenconfig''
     \<in> set (snd (build_docker_image failing_builder_external example_builder
                    ''registry.example.com/zenml:pipeline'' ''pipeline''
                    DockerConfiguration_default example_stack None))"
    by (simp add: run_default_failing_builder)
  have created_failing: "raises failing_builder_external
         (CopyActiveConfiguration ''/repo/.zenconfig'' ''/app/.zenconfig'') = None"
    by (simp add: failing_builder_external_def example_external_def)
  have copied: "CopyActiveConfiguration ''/repo/.zenconfig'' ''/app/.zenconfig''
     \<in> set (snd (build_docker_image example_external example_builder
                    ''registry.example.com/zenml:pipeline'' ''pipeline''
                    DockerConfiguration_default example_stack None))"
    by (simp add: run_default)
  have created: "raises example_external
         (CopyActiveConfiguration ''/repo/.zenconfig'' ''/app/.zenconfig'') = None"
    by (simp add: example_external_def)
  from profile_copy_removed [OF copied_failing created_failing]
  have removed_failing: "filter is_rmtree
         (snd (build_docker_image failing_builder_external example_builder
                 ''registry.example.com/zenml:pipeline'' ''pipeline''
                 DockerConfiguration_default example_stack None)) = [Rmtree ''/repo/.zenconfig'']"
    by blast
  from profile_copy_removed [OF copied created]
  have removed: "filter is_rmtree
         (snd (build_docker_image example_external example_builder
                 ''registry.example.com/zenml:pipeline'' ''pipeline''
                 DockerConfiguration_default example_stack None)) = [Rmtree ''/repo/.zenconfig'']"
    by blast
  from copied_failing created_failing removed_failing copied created removed
  show ?thesis
    by (simp add: run_default_failing_builder run_default)
qed

section \<open>Properties of the registry publisher\<close>

lemma bind_err_Inl_iff:
  "bind_err m f = Inl e \<longleftrightarrow> m = Inl e \<or> (\<exists>x. m = Inr x \<and> f x = Inl e)"
  by (cases m) simp_all

lemma propagate_Inl: "propagate r = Inl e \<Longrightarrow> \<exists>x. e = Propagated x"
  by (cases r) auto

lemma chain_integration_requirements_Inl:
  "chain_integration_requirements ext ints = Inl e \<Longrightarrow> \<exists>x. e = Propagated x"
  by (induction ints arbitrary: e) (auto simp: bind_err_Inl_iff dest: propagate_Inl)

lemma gather_requirements_files_Inl:
  assumes "gather_requirements_files ext cfg stack = Inl e"
  shows "e = RuntimeError ''Unable to export local python packages.'' \<or> (\<exists>x. e = Propagated x)"
proof -
  have l: "local_requirements_stage ext cfg = Inl e \<Longrightarrow> ?thesis"
    by (auto simp: local_requirements_stage_def split: option.splits process_result.splits)
  have u: "user_requirements_text ext cfg = Inl e \<Longrightarrow> ?thesis"
    by (auto simp: user_requirements_text_def bind_err_Inl_iff
        split: option.splits requirements_value.splits dest: propagate_Inl)
  from assms l u chain_integration_requirements_Inl [of ext "required_integrations cfg" e]
  show ?thesis
    unfolding gather_requirements_files_def Let_def bind_err_Inl_iff
    by (auto split: if_splits)
qed

lemma synthesis_stage_error:
  assumes "fst (synthesis_stage ext target_image_name cfg stack entrypoint parent) = Inl e"
  shows "e = RuntimeError ''Unable to export local python packages.'' \<or> (\<exists>x. e = Propagated x)"
proof (cases "gather_requirements_files ext cfg stack")
  case (Inl e')
  with assms gather_requirements_files_Inl [OF Inl] show ?thesis
    by (simp add: synthesis_stage_Inl)
next
  case (Inr files)
  from assms show ?thesis
    unfolding synthesis_stage_Inr [OF Inr]
    by (auto simp: fst_call split: if_splits option.splits)
qed

lemma build_docker_image_error:
  assumes "fst (build_docker_image ext self target_image_name pipeline_name cfg stack entrypoint)
             = Inl e"
  shows "e = ValueError ValueError_message
         \<or> e = RuntimeError ''Unable to export local python packages.''
         \<or> e = TypeError
         \<or> (\<exists>x. e = Propagated x)"
proof (cases "truthy_str (dockerfile cfg)")
  case True
  then obtain path where df: "dockerfile cfg = Some path" "path \<noteq> []"
    by (cases "dockerfile cfg") simp_all
  from assms show ?thesis
    unfolding build_docker_image_with_dockerfile [OF df]
    by (auto simp: fst_call split: if_splits option.splits dest: synthesis_stage_error)
next
  case False
  from assms show ?thesis
    unfolding build_docker_image_without_dockerfile [OF False]
    by (auto simp: fst_call split: if_splits option.splits dest: synthesis_stage_error)
qed

lemma no_container_registry_message_distinct:
  "no_container_registry_message stack \<noteq> ''Unable to export local python packages.''"
  by (simp add: no_container_registry_message_def)

text \<open>
  Claim C8 as stated says that an error is raised before any build if and only if the
  stack has no container registry.  With a container registry on the stack and a
  configuration in which nothing is requested, \<open>build_and_push_docker_image\<close> raises the
  \<open>ValueError\<close> of \<open>build_docker_image\<close> before any build, tag or push call, and the run
  record stays unwritten.
\<close>

theorem registry_present_error_counterexample:
  "container_registry example_stack = Some example_registry
   \<and> fst (build_and_push_docker_image example_external example_builder ''pipeline''
            bare_configuration example_stack Map.empty None) =
       Inl (ValueError ValueError_message)
   \<and> fst (snd (build_and_push_docker_image example_external example_builder ''pipeline''
                 bare_configuration example_stack Map.empty None)) = []
   \<and> snd (snd (build_and_push_docker_image example_external example_builder ''pipeline''
                 bare_configuration example_stack Map.empty None)) ''docker_image'' = None"
proof -
  have "build_and_push_docker_image example_external example_builder ''pipeline''
          bare_configuration example_stack Map.empty None =
        (Inl (ValueError ValueError_message), [], Map.empty)"
    using run_bare
    by (simp add: build_and_push_docker_image_def example_stack_def example_registry_def
        bare_configuration_def DockerConfiguration_default_def)
  then show ?thesis by (simp add: example_stack_def)
qed

text \<open>
  Claim C8, as amended.  \<open>build_and_push_docker_image\<close> raises the \<open>RuntimeError\<close> that
  names the missing container registry if and only if the stack has no container
  registry, and then no call has been issued.  Otherwise it runs \<open>build_docker_image\<close>
  under the target name \<^verbatim>\<open>{registry.uri}/{target_repository}:{pipeline_name}\<close>.  If that
  raises, the error is passed on and nothing is pushed.  If it returns, that same name is
  pushed; the digest the registry reports is written into the run record under the key
  \<^verbatim>\<open>docker_image\<close> and returned.  Whenever an error is raised, by the missing registry,
  the build or the push, the run record is left as it was.
\<close>

theorem build_and_push_outcome:
  "(case build_and_push_docker_image ext self pipeline_name cfg stack run_record entrypoint of
      (result, evs, run_record') \<Rightarrow>
        (container_registry stack = None \<longleftrightarrow>
           result = Inl (RuntimeError (no_container_registry_message stack)))
        \<and> (container_registry stack = None \<longrightarrow> evs = [])
        \<and> (\<forall>e. result = Inl e \<longrightarrow> run_record' = run_record)
        \<and> (\<forall>registry. container_registry stack = Some registry \<longrightarrow>
             (case build_docker_image ext self
                     (uri registry @ ''/'' @ target_repository cfg @ '':'' @ pipeline_name)
                     pipeline_name cfg stack entrypoint of
                (Inl e, built) \<Rightarrow> result = Inl e \<and> evs = built
              | (Inr u, built) \<Rightarrow>
                  evs = built @ [PushImage (uri registry @ ''/'' @ target_repository cfg @ '':''
                                             @ pipeline_name)]
                  \<and> (case push_image registry
                             (uri registry @ ''/'' @ target_repository cfg @ '':''
                                @ pipeline_name) of
                       Inl x \<Rightarrow> result = Inl (Propagated x) \<and> run_record' = run_record
                     | Inr digest \<Rightarrow>
                         result = Inr digest
                         \<and> run_record' = run_record(''docker_image'' \<mapsto> digest)))))"
proof (cases "container_registry stack")
  case None
  then show ?thesis by (simp add: build_and_push_docker_image_def)
next
  case (Some registry)
  let ?target = "uri registry @ ''/'' @ target_repository cfg @ '':'' @ pipeline_name"
  let ?built = "build_docker_image ext self ?target pipeline_name cfg stack entrypoint"
  have not_registry_error:
    "fst ?built \<noteq> Inl (RuntimeError (no_container_registry_message stack))"
    using build_docker_image_error [of ext self ?target pipeline_name cfg stack entrypoint]
      no_container_registry_message_distinct [of stack]
    by auto
  obtain r built where built: "?built = (r, built)" by (cases ?built)
  with not_registry_error
  have r: "r \<noteq> Inl (RuntimeError (no_container_registry_message stack))" by simp
  show ?thesis
    using Some r
    by (cases r; cases "push_image registry ?target")
       (simp_all add: build_and_push_docker_image_def built Let_def del: append.simps)
qed

theorem build_and_push_outcome_witness:
  "container_registry example_stack = Some example_registry
   \<and> uri example_registry @ ''/'' @ target_repository custom_parent_configuration @ '':''
       @ ''pipeline'' = ''registry.example.com/zenml:pipeline''
   \<and> (case build_and_push_docker_image example_external example_builder ''pipeline''
              custom_parent_configuration example_stack Map.empty None of
         (result, evs, run_record) \<Rightarrow> (result, evs, run_record ''docker_image'')) =
       (Inr ''registry.example.com/zenml:pipeline@sha256:0'',
        [BuildImage ''registry.example.com/zenml:pipeline''
           (DockerfileLines
              [''FROM python:3.8'', ''WORKDIR /app'', ''COPY . .'', ''RUN chmod -R a+rw .''])
           (Some ''/repo'') (SynthArgs None [] True),
         PushImage ''registry.example.com/zenml:pipeline''],
        Some ''registry.example.com/zenml:pipeline@sha256:0'')"
proof -
  have registry: "container_registry example_stack = Some example_registry"
    by (simp add: example_stack_def)
  have target: "uri example_registry @ ''/'' @ target_repository custom_parent_configuration
       @ '':'' @ ''pipeline'' = ''registry.example.com/zenml:pipeline''"
    by (simp add: example_registry_def custom_parent_configuration_def bare_configuration_def
        DockerConfiguration_default_def)
  have pushed: "push_image example_registry ''registry.example.com/zenml:pipeline'' =
      Inr ''registry.example.com/zenml:pipeline@sha256:0''"
    by (simp add: example_registry_def)
  obtain result evs run_record where run:
    "build_and_push_docker_image example_external example_builder ''pipeline''
       custom_parent_configuration example_stack Map.empty None = (result, evs, run_record)"
    by (cases "build_and_push_docker_image example_external example_builder ''pipeline''
       custom_parent_configuration example_stack Map.empty None")
  from build_and_push_outcome [where ext = example_external and self = example_builder
      and pipeline_name = "''pipeline''" and cfg = custom_parent_configuration
      and stack = example_stack and run_record = Map.empty and entrypoint = None]
  have "result = Inr ''registry.example.com/zenml:pipeline@sha256:0''
        \<and> evs = snd (build_docker_image example_external example_builder
                       ''registry.example.com/zenml:pipeline'' ''pipeline''
                       custom_parent_configuration example_stack None)
                 @ [PushImage ''registry.example.com/zenml:pipeline'']
        \<and> run_record = Map.empty(''docker_image'' \<mapsto>
              ''registry.example.com/zenml:pipeline@sha256:0'')"
    unfolding run using registry
    by (simp add: target run_custom_parent pushed del: append.simps)
  with registry target show ?thesis
    by (simp add: run run_custom_parent)
qed


end
